theory Spec2Isabelle
  imports Main
begin

section \<open>Strings\<close>

text \<open>
  Script strings are modelled as \<^typ>\<open>string\<close>, each \<^typ>\<open>char\<close> standing for the
  code unit with the same number (U+0000 to U+00FF). On that range
  \<^verbatim>\<open>String.prototype.toLowerCase\<close> maps A to Z and the capital letters
  U+00C0 to U+00DE (the multiplication sign U+00D7 apart) 32 places up and leaves
  every other code unit alone.
\<close>

definition toLowerCase_char :: "char \<Rightarrow> char" where
  "toLowerCase_char c =
     (let n = (of_char c :: nat)
      in if (65 \<le> n \<and> n \<le> 90) \<or> (192 \<le> n \<and> n \<le> 222 \<and> n \<noteq> 215)
         then char_of (n + 32) else c)"

definition toLowerCase :: "string \<Rightarrow> string" where
  "toLowerCase s = map toLowerCase_char s"

text \<open>
  Equality of two strings up to the case of their letters, as the specification words it
  ("equals ..., case-insensitive"): the two strings have the same lower-case form.
\<close>

definition equals_ignoring_case :: "string \<Rightarrow> string \<Rightarrow> bool" where
  "equals_ignoring_case s t = (toLowerCase s = toLowerCase t)"

section \<open>AdminPortal: the statistics reduction of fetchStats\<close>

record stats =
  pending :: nat
  inProgress :: nat
  resolved :: nat
  total :: nat

definition stats_zero :: stats where
  "stats_zero = \<lparr>pending = 0, inProgress = 0, resolved = 0, total = 0\<rparr>"

text \<open>
  The callback of \<^verbatim>\<open>data?.reduce\<close>. A row of \<^verbatim>\<open>select('status')\<close> is its status
  column, \<open>None\<close> for SQL null; \<^verbatim>\<open>complaint.status?.toLowerCase()\<close> is then
  \<^verbatim>\<open>undefined\<close> and equals none of the literals.
\<close>

definition stats_step :: "string option \<Rightarrow> stats \<Rightarrow> stats" where
  "stats_step row acc =
     (let status = map_option toLowerCase row;
          acc1 = (if status = Some ''registered'' then acc\<lparr>pending := pending acc + 1\<rparr>
                  else if status = Some ''assigned'' \<or> status = Some ''in-progress''
                       then acc\<lparr>inProgress := inProgress acc + 1\<rparr>
                  else if status = Some ''resolved'' then acc\<lparr>resolved := resolved acc + 1\<rparr>
                  else acc)
      in acc1\<lparr>total := total acc1 + 1\<rparr>)"

definition reduce_stats :: "string option list \<Rightarrow> stats" where
  "reduce_stats rows = fold stats_step rows stats_zero"

text \<open>
  \<^verbatim>\<open>data?.reduce(...) || {pending: 0, ...}\<close>: a null \<^verbatim>\<open>data\<close> gives the zero
  counters; the result of the reduction is an object, hence truthy.
\<close>

definition stats_of_data :: "string option list option \<Rightarrow> stats" where
  "stats_of_data d = (case d of None \<Rightarrow> stats_zero | Some rows \<Rightarrow> reduce_stats rows)"

text \<open>The four classes of the specification, on one row.\<close>

definition is_pending :: "string option \<Rightarrow> bool" where
  "is_pending row = (case row of None \<Rightarrow> False | Some s \<Rightarrow> equals_ignoring_case s ''Registered'')"

definition is_inProgress :: "string option \<Rightarrow> bool" where
  "is_inProgress row =
     (case row of None \<Rightarrow> False
      | Some s \<Rightarrow> equals_ignoring_case s ''Assigned'' \<or> equals_ignoring_case s ''In-Progress'')"

definition is_resolved :: "string option \<Rightarrow> bool" where
  "is_resolved row = (case row of None \<Rightarrow> False | Some s \<Rightarrow> equals_ignoring_case s ''Resolved'')"

section \<open>AdminPortal: data and component state\<close>

text \<open>
  A row of the complaints table, with the columns the component reads. Nullable columns
  are options. The field names carry a prefix where the column name is used by more than
  one record (\<open>id\<close>, \<open>status\<close>, \<open>assigned_to\<close>).
\<close>

record complaint =
  c_id :: string
  complaint_code :: string
  issue_type :: "string option"
  c_status :: "string option"
  c_assigned_to :: "string option"
  created_at :: "string option"

text \<open>The object handed to \<^verbatim>\<open>insert\<close> on complaint_status_updates.\<close>

record status_update =
  complaint_id :: string
  su_status :: string
  su_assigned_to :: string
  assigned_contact :: string
  su_note :: string

record filters =
  f_status :: string
  f_issueType :: string

text \<open>The \<^verbatim>\<open>useState\<close> cells of the component.\<close>

record admin_state =
  complaints :: "complaint list"
  stats_cell :: stats
  loading :: bool
  assignDialogOpen :: bool
  selectedComplaint :: "complaint option"
  workerName :: string
  workerContact :: string
  statusNote :: string
  newStatus :: string
  filters_cell :: filters
  currentPage :: int
  complaintsPerPage :: int
  totalComplaints :: int

definition initial_state :: admin_state where
  "initial_state =
     \<lparr>complaints = [], stats_cell = stats_zero, loading = True, assignDialogOpen = False,
      selectedComplaint = None, workerName = [], workerContact = [], statusNote = [],
      newStatus = [], filters_cell = \<lparr>f_status = [], f_issueType = []\<rparr>,
      currentPage = 1, complaintsPerPage = 5, totalComplaints = 0\<rparr>"

text \<open>
  A query as the builder calls assemble it: the table, the selected columns, the count
  option, the equality predicates in the order they were added, the row range and the
  ordering (column, ascending).
\<close>

record query =
  q_table :: string
  q_columns :: string
  q_count :: "string option"
  q_eq :: "(string \<times> string) list"
  q_range :: "(int \<times> int) option"
  q_order :: "(string \<times> bool) option"

definition from_table :: "string \<Rightarrow> query" where
  "from_table t = \<lparr>q_table = t, q_columns = [], q_count = None, q_eq = [],
                    q_range = None, q_order = None\<rparr>"

definition select_q :: "string \<Rightarrow> string option \<Rightarrow> query \<Rightarrow> query" where
  "select_q cols cnt q = q\<lparr>q_columns := cols, q_count := cnt\<rparr>"

definition eq_q :: "string \<Rightarrow> string \<Rightarrow> query \<Rightarrow> query" where
  "eq_q col v q = q\<lparr>q_eq := q_eq q @ [(col, v)]\<rparr>"

definition range_q :: "int \<Rightarrow> int \<Rightarrow> query \<Rightarrow> query" where
  "range_q lo hi q = q\<lparr>q_range := Some (lo, hi)\<rparr>"

definition order_q :: "string \<Rightarrow> bool \<Rightarrow> query \<Rightarrow> query" where
  "order_q col ascending q = q\<lparr>q_order := Some (col, ascending)\<rparr>"

text \<open>
  What the component does that is visible outside it, in the order it does it: toasts
  (title, description, destructive variant), console errors and the calls on the store.
\<close>

datatype effect =
    Toast string "string option" bool
  | ConsoleError string
  | SelectComplaints query
  | SelectStatusColumn
  | UpdateComplaint string string string
  | InsertStatusUpdate status_update

text \<open>
  The answer of an awaited store call: the promise rejects with an error, or it fulfils
  with the triple \<^verbatim>\<open>{data, error, count}\<close>. An error is its message.
\<close>

record 'a pg_response =
  data :: "'a option"
  error :: "string option"
  count :: "int option"

datatype 'a awaited = Rejected string | Fulfilled 'a

text \<open>The error a \<^verbatim>\<open>try\<close> block ends with, if any: a rejection or a non-null \<open>error\<close>.\<close>

fun thrown_by :: "('a pg_response) awaited \<Rightarrow> string option" where
  "thrown_by (Rejected e) = Some e"
| "thrown_by (Fulfilled r) = error r"

section \<open>AdminPortal: fetchComplaints and fetchStats\<close>

text \<open>The query of \<^verbatim>\<open>fetchComplaints(page)\<close>, built from the filters and the page size.\<close>

definition complaints_query :: "admin_state \<Rightarrow> int \<Rightarrow> query" where
  "complaints_query s page =
     (let query0 = select_q ''*'' (Some ''exact'') (from_table ''complaints'');
          query1 = (if f_status (filters_cell s) \<noteq> []
                    then eq_q ''status'' (f_status (filters_cell s)) query0 else query0);
          query2 = (if f_issueType (filters_cell s) \<noteq> []
                    then eq_q ''issue_type'' (f_issueType (filters_cell s)) query1 else query1);
          from = (page - 1) * complaintsPerPage s;
          to = from + complaintsPerPage s - 1
      in order_q ''created_at'' False (range_q from to query2))"

text \<open>
  \<^verbatim>\<open>fetchComplaints\<close> in two halves, before and after the \<^verbatim>\<open>await\<close>: the first sets
  the loading flag and sends the query, the second handles the answer. \<^verbatim>\<open>data || []\<close>
  and \<^verbatim>\<open>count || 0\<close> replace null (and a zero count) by the empty list and zero.
\<close>

definition fetchComplaints_send :: "admin_state \<Rightarrow> int \<Rightarrow> admin_state \<times> effect list" where
  "fetchComplaints_send s page = (s\<lparr>loading := True\<rparr>, [SelectComplaints (complaints_query s page)])"

definition fetch_failed :: "admin_state \<Rightarrow> admin_state \<times> effect list" where
  "fetch_failed s =
     (s\<lparr>loading := False\<rparr>,
      [ConsoleError ''Error fetching complaints:'',
       Toast ''Error fetching complaints'' None True])"

fun fetchComplaints_receive ::
  "admin_state \<Rightarrow> (complaint list pg_response) awaited \<Rightarrow> admin_state \<times> effect list" where
  "fetchComplaints_receive s (Rejected e) = fetch_failed s"
| "fetchComplaints_receive s (Fulfilled r) =
     (case error r of
        Some e \<Rightarrow> fetch_failed s
      | None \<Rightarrow>
          (s\<lparr>complaints := (case data r of None \<Rightarrow> [] | Some rows \<Rightarrow> rows),
             totalComplaints := (case count r of None \<Rightarrow> 0 | Some n \<Rightarrow> n),
             loading := False\<rparr>, []))"

definition fetchComplaints ::
  "admin_state \<Rightarrow> int \<Rightarrow> (complaint list pg_response) awaited \<Rightarrow> admin_state \<times> effect list" where
  "fetchComplaints s page answer =
     (let (s1, es1) = fetchComplaints_send s page;
          (s2, es2) = fetchComplaints_receive s1 answer
      in (s2, es1 @ es2))"

text \<open>
  \<^verbatim>\<open>fetchStats\<close>, after its \<^verbatim>\<open>await\<close>: the counters are replaced on success; on
  failure the error is logged and the state is left as it is.
\<close>

fun fetchStats_receive ::
  "admin_state \<Rightarrow> (string option list pg_response) awaited \<Rightarrow> admin_state \<times> effect list" where
  "fetchStats_receive s (Rejected e) = (s, [ConsoleError ''Error fetching stats:''])"
| "fetchStats_receive s (Fulfilled r) =
     (case error r of
        Some e \<Rightarrow> (s, [ConsoleError ''Error fetching stats:''])
      | None \<Rightarrow> (s\<lparr>stats_cell := stats_of_data (data r)\<rparr>, []))"

section \<open>AdminPortal: the assignment dialog\<close>

text \<open>\<^verbatim>\<open>x || ""\<close> on a nullable string: null and the empty string both give the empty string.\<close>

fun or_empty :: "string option \<Rightarrow> string" where
  "or_empty None = []"
| "or_empty (Some v) = v"

definition openAssignDialog :: "admin_state \<Rightarrow> complaint \<Rightarrow> admin_state" where
  "openAssignDialog s complaint =
     s\<lparr>selectedComplaint := Some complaint,
       newStatus := or_empty (c_status complaint),
       workerName := or_empty (c_assigned_to complaint),
       workerContact := or_empty (c_status complaint),
       assignDialogOpen := True\<rparr>"

text \<open>
  The record store, as far as the component writes to it: the two tables. A write call
  that is answered without error has been applied; one answered with an error (or whose
  promise rejected) has left the tables as they were.
\<close>

record record_store =
  complaints_tbl :: "complaint list"
  status_updates_tbl :: "status_update list"

definition set_assignment :: "string \<Rightarrow> string \<Rightarrow> string \<Rightarrow> complaint \<Rightarrow> complaint" where
  "set_assignment i st name c =
     (if c_id c = i then c\<lparr>c_status := Some st, c_assigned_to := Some name\<rparr> else c)"

definition store_update ::
  "record_store \<Rightarrow> string \<Rightarrow> string \<Rightarrow> string \<Rightarrow> (unit pg_response) awaited \<Rightarrow> record_store" where
  "store_update db i st name answer =
     (if thrown_by answer = None
      then db\<lparr>complaints_tbl := map (set_assignment i st name) (complaints_tbl db)\<rparr>
      else db)"

definition store_insert ::
  "record_store \<Rightarrow> status_update \<Rightarrow> (unit pg_response) awaited \<Rightarrow> record_store" where
  "store_insert db row answer =
     (if thrown_by answer = None
      then db\<lparr>status_updates_tbl := status_updates_tbl db @ [row]\<rparr>
      else db)"

definition assign_failed :: "effect list" where
  "assign_failed = [ConsoleError ''Error assigning worker:'',
                    Toast ''Error assigning worker'' None True]"

text \<open>The object that \<^verbatim>\<open>handleAssignWorker\<close> inserts into complaint_status_updates.\<close>

definition status_row :: "admin_state \<Rightarrow> complaint \<Rightarrow> status_update" where
  "status_row s sel =
     \<lparr>complaint_id = c_id sel, su_status = newStatus s, su_assigned_to = workerName s,
      assigned_contact = workerContact s, su_note = statusNote s\<rparr>"

definition assigned_toast :: "admin_state \<Rightarrow> complaint \<Rightarrow> effect" where
  "assigned_toast s sel =
     Toast ''Worker Assigned Successfully''
       (Some (workerName s @ '' has been assigned to complaint '' @ complaint_code sel)) False"

definition form_reset :: "admin_state \<Rightarrow> admin_state" where
  "form_reset s =
     s\<lparr>assignDialogOpen := False, workerName := [], workerContact := [], statusNote := [],
       newStatus := [], selectedComplaint := None\<rparr>"

text \<open>
  \<^verbatim>\<open>handleAssignWorker\<close>. \<open>upd\<close> and \<open>ins\<close> are the answers of the store to the update
  and to the insert; the second is looked at only if the insert is sent.
\<close>

definition handleAssignWorker ::
  "admin_state \<Rightarrow> record_store \<Rightarrow> (unit pg_response) awaited \<Rightarrow> (unit pg_response) awaited
     \<Rightarrow> admin_state \<times> record_store \<times> effect list" where
  "handleAssignWorker s db upd ins =
     (case selectedComplaint s of
        None \<Rightarrow> (s, db, [Toast ''Please fill all fields'' None True])
      | Some sel \<Rightarrow>
          if workerName s = [] \<or> workerContact s = [] \<or> newStatus s = []
          then (s, db, [Toast ''Please fill all fields'' None True])
          else
            let call1 = UpdateComplaint (c_id sel) (newStatus s) (workerName s);
                db1 = store_update db (c_id sel) (newStatus s) (workerName s) upd
            in (case thrown_by upd of
                  Some updateError \<Rightarrow> (s, db1, call1 # assign_failed)
                | None \<Rightarrow>
                    let row = status_row s sel;
                        call2 = InsertStatusUpdate row;
                        db2 = store_insert db1 row ins
                    in (case thrown_by ins of
                          Some statusError \<Rightarrow> (s, db2, call1 # call2 # assign_failed)
                        | None \<Rightarrow>
                            (form_reset s, db2, [call1, call2, assigned_toast s sel]))))"

section \<open>AdminPortal: the controls\<close>

definition issueTypes :: "string list" where
  "issueTypes = [''Electricity'', ''Water Supply'', ''Garbage Collection'', ''Road Repair'',
                 ''Street Light'', ''Public Transport'', ''Noise Pollution'', ''Others'']"

text \<open>The items of the status selector of the dialog.\<close>

definition status_options :: "string list" where
  "status_options = [''Assigned'', ''In-Progress'', ''Resolved'']"

text \<open>The items of the two filter selectors, \<open>all\<close> first.\<close>

definition status_filter_options :: "string list" where
  "status_filter_options = [''all'', ''Registered'', ''Assigned'', ''In-Progress'', ''Resolved'']"

definition issue_filter_options :: "string list" where
  "issue_filter_options = ''all'' # issueTypes"

text \<open>The \<^verbatim>\<open>disabled\<close> attributes of the Update, Previous and Next buttons.\<close>

definition update_disabled :: "complaint \<Rightarrow> bool" where
  "update_disabled complaint = (c_status complaint = Some ''Resolved'')"

definition previous_disabled :: "admin_state \<Rightarrow> bool" where
  "previous_disabled s = (currentPage s = 1)"

definition next_disabled :: "admin_state \<Rightarrow> bool" where
  "next_disabled s = (currentPage s * complaintsPerPage s \<ge> totalComplaints s)"

text \<open>
  The rows are on screen when the list is not loading; the body of the dialog is on
  screen when the dialog is open and a complaint is selected.
\<close>

definition row_shown :: "admin_state \<Rightarrow> complaint \<Rightarrow> bool" where
  "row_shown s complaint = (\<not> loading s \<and> complaint \<in> set (complaints s))"

definition dialog_shown :: "admin_state \<Rightarrow> bool" where
  "dialog_shown s = (assignDialogOpen s \<and> selectedComplaint s \<noteq> None)"

text \<open>
  What a user or the store can do to the component. A control that is disabled or not on
  screen cannot be used: the step is then \<open>None\<close>. The steps allow a little more than
  the page does (a row's button while the dialog is open, the dialog library reopening
  the dialog), which only widens the set of states reached.
\<close>

datatype action =
    ClickUpdate complaint
  | SelectNewStatus string
  | TypeWorkerName string
  | TypeWorkerContact string
  | TypeStatusNote string
  | ClickUpdateStatus "(unit pg_response) awaited" "(unit pg_response) awaited"
  | SetDialogOpen bool
  | SelectIssueFilter string
  | SelectStatusFilter string
  | ClickPrevious
  | ClickNext
  | RunEffect
  | ComplaintsAnswer "(complaint list pg_response) awaited"
  | StatsAnswer "(string option list pg_response) awaited"

type_synonym world = "admin_state \<times> record_store"

fun ui_step :: "world \<Rightarrow> action \<Rightarrow> (world \<times> effect list) option" where
  "ui_step (s, db) (ClickUpdate complaint) =
     (if row_shown s complaint \<and> \<not> update_disabled complaint
      then Some ((openAssignDialog s complaint, db), []) else None)"
| "ui_step (s, db) (SelectNewStatus v) =
     (if dialog_shown s \<and> v \<in> set status_options
      then Some ((s\<lparr>newStatus := v\<rparr>, db), []) else None)"
| "ui_step (s, db) (TypeWorkerName v) =
     (if dialog_shown s then Some ((s\<lparr>workerName := v\<rparr>, db), []) else None)"
| "ui_step (s, db) (TypeWorkerContact v) =
     (if dialog_shown s then Some ((s\<lparr>workerContact := v\<rparr>, db), []) else None)"
| "ui_step (s, db) (TypeStatusNote v) =
     (if dialog_shown s then Some ((s\<lparr>statusNote := v\<rparr>, db), []) else None)"
| "ui_step (s, db) (ClickUpdateStatus upd ins) =
     (if dialog_shown s
      then (case handleAssignWorker s db upd ins of (s', db', es) \<Rightarrow> Some ((s', db'), es))
      else None)"
| "ui_step (s, db) (SetDialogOpen b) = Some ((s\<lparr>assignDialogOpen := b\<rparr>, db), [])"
| "ui_step (s, db) (SelectIssueFilter v) =
     (if v \<in> set issue_filter_options
      then Some ((s\<lparr>filters_cell := (filters_cell s)\<lparr>f_issueType := (if v = ''all'' then [] else v)\<rparr>,
                   currentPage := 1\<rparr>, db), [])
      else None)"
| "ui_step (s, db) (SelectStatusFilter v) =
     (if v \<in> set status_filter_options
      then Some ((s\<lparr>filters_cell := (filters_cell s)\<lparr>f_status := (if v = ''all'' then [] else v)\<rparr>,
                   currentPage := 1\<rparr>, db), [])
      else None)"
| "ui_step (s, db) ClickPrevious =
     (if previous_disabled s then None else Some ((s\<lparr>currentPage := currentPage s - 1\<rparr>, db), []))"
| "ui_step (s, db) ClickNext =
     (if next_disabled s then None else Some ((s\<lparr>currentPage := currentPage s + 1\<rparr>, db), []))"
| "ui_step (s, db) RunEffect =
     (case fetchComplaints_send s (currentPage s) of
        (s', es) \<Rightarrow> Some ((s', db), es @ [SelectStatusColumn]))"
| "ui_step (s, db) (ComplaintsAnswer answer) =
     (case fetchComplaints_receive s answer of (s', es) \<Rightarrow> Some ((s', db), es))"
| "ui_step (s, db) (StatsAnswer answer) =
     (case fetchStats_receive s answer of (s', es) \<Rightarrow> Some ((s', db), es))"

text \<open>A sequence of steps; it stops at the first one that cannot be taken.\<close>

fun ui_run :: "world \<Rightarrow> action list \<Rightarrow> (world \<times> effect list) option" where
  "ui_run w [] = Some (w, [])"
| "ui_run w (a # as) =
     (case ui_step w a of
        None \<Rightarrow> None
      | Some (w1, es1) \<Rightarrow>
          (case ui_run w1 as of None \<Rightarrow> None | Some (w2, es2) \<Rightarrow> Some (w2, es1 @ es2)))"

section \<open>The credential gateway: values and coercions\<close>

text \<open>
  A value of the script language as \<^verbatim>\<open>req.json()\<close> can produce it, and
  \<^verbatim>\<open>undefined\<close> for a property that is not there. A number is given by the two
  things the handler can observe of it: whether it is non-zero (ToBoolean) and its string
  form (Number::toString), whatever its magnitude and whether or not it is an integer.
  Which pairs belong to actual numbers is left open, so what holds of every pair holds of
  the actual ones. An object is the list of its own properties; its prototype is
  \<^verbatim>\<open>Object.prototype\<close>, an array's is \<^verbatim>\<open>Array.prototype\<close>, as JSON parsing
  leaves them.
\<close>

datatype jsval =
    JUndefined
  | JNull
  | JBool bool
  | JNum bool string
  | JStr string
  | JArr "jsval list"
  | JObj "(string \<times> jsval) list"

text \<open>ToBoolean, the test of \<^verbatim>\<open>!x\<close> and \<^verbatim>\<open>x || y\<close>.\<close>

fun truthy :: "jsval \<Rightarrow> bool" where
  "truthy JUndefined = False"
| "truthy JNull = False"
| "truthy (JBool b) = b"
| "truthy (JNum nonzero text) = nonzero"
| "truthy (JStr s) = (s \<noteq> [])"
| "truthy (JArr xs) = True"
| "truthy (JObj kvs) = True"

fun join_with :: "string \<Rightarrow> string list \<Rightarrow> string" where
  "join_with sep [] = []"
| "join_with sep [x] = x"
| "join_with sep (x # y # zs) = x @ sep @ join_with sep (y # zs)"

text \<open>All the results of a list of conversions, or \<open>None\<close> if one of them threw.\<close>

fun all_converted :: "string option list \<Rightarrow> string list option" where
  "all_converted [] = Some []"
| "all_converted (None # rs) = None"
| "all_converted (Some x # rs) = (case all_converted rs of None \<Rightarrow> None | Some xs \<Rightarrow> Some (x # xs))"

text \<open>
  ToString, the coercion of a template literal, of \<^verbatim>\<open>RegExp.prototype.test\<close> and of
  \<^verbatim>\<open>URLSearchParams\<close>; \<open>None\<close> when it throws a TypeError. An object is converted by
  its \<^verbatim>\<open>toString\<close> method, then by \<^verbatim>\<open>valueOf\<close>. Without an own property
  \<open>toString\<close> the inherited method answers \<^verbatim>\<open>[object Object]\<close>. An own property
  \<open>toString\<close> of a parsed object is never callable, and \<^verbatim>\<open>valueOf\<close> (own and not
  callable, or inherited and returning the object) gives no primitive value either: the
  conversion throws. An array joins its elements with commas, null and undefined elements
  as empty strings, and throws if the conversion of an element does.
\<close>

fun to_string :: "jsval \<Rightarrow> string option" where
  "to_string JUndefined = Some ''undefined''"
| "to_string JNull = Some ''null''"
| "to_string (JBool b) = Some (if b then ''true'' else ''false'')"
| "to_string (JNum nonzero text) = Some text"
| "to_string (JStr s) = Some s"
| "to_string (JArr xs) =
     map_option (join_with '','')
       (all_converted (map (\<lambda>x. if x = JUndefined \<or> x = JNull then Some [] else to_string x) xs))"
| "to_string (JObj kvs) =
     (if map_of kvs ''toString'' \<noteq> None then None else Some ''[object Object]'')"

text \<open>
  Reading one of the properties \<open>phone\<close>, \<open>username\<close>, \<open>password\<close> or \<open>message\<close> of a
  value that is neither null nor undefined: an object gives its own property, every other
  value has no property of these names.
\<close>

fun get_property :: "jsval \<Rightarrow> string \<Rightarrow> jsval" where
  "get_property (JObj kvs) k = (case map_of kvs k of None \<Rightarrow> JUndefined | Some v \<Rightarrow> v)"
| "get_property v k = JUndefined"

definition nullish :: "jsval \<Rightarrow> bool" where
  "nullish v = (v = JNull \<or> v = JUndefined)"

subsection \<open>The pattern of the phone number\<close>

definition is_digit :: "char \<Rightarrow> bool" where
  "is_digit c = (48 \<le> (of_char c :: nat) \<and> (of_char c :: nat) \<le> 57)"

text \<open>Matching a literal at the start of the input, and \<^verbatim>\<open>\d{n}\<close>; both give the rest.\<close>

fun match_literal :: "string \<Rightarrow> string \<Rightarrow> string option" where
  "match_literal [] s = Some s"
| "match_literal (l # ls) [] = None"
| "match_literal (l # ls) (c # cs) = (if l = c then match_literal ls cs else None)"

fun match_digits :: "nat \<Rightarrow> string \<Rightarrow> string option" where
  "match_digits 0 s = Some s"
| "match_digits (Suc n) [] = None"
| "match_digits (Suc n) (c # cs) = (if is_digit c then match_digits n cs else None)"

text \<open>
  \<^verbatim>\<open>/^\+91\d{10}$/\<close> on a string: the whole input is the literal and ten digits.
\<close>

definition phone_regex_test :: "string \<Rightarrow> bool" where
  "phone_regex_test s =
     (case match_literal ''+91'' s of
        None \<Rightarrow> False
      | Some r \<Rightarrow> (case match_digits 10 r of None \<Rightarrow> False | Some rest \<Rightarrow> rest = []))"

section \<open>The credential gateway: the handler\<close>

text \<open>
  What the handler reads from outside the request: the three environment variables, and
  the message texts of the TypeErrors the engine raises when a null value is destructured,
  when a property of it is read, and when an object cannot be converted to a primitive
  value.
\<close>

record runtime =
  TWILIO_ACCOUNT_SID :: "string option"
  TWILIO_AUTH_TOKEN :: "string option"
  TWILIO_PHONE_NUMBER :: "string option"
  destructure_null_message :: string
  read_null_message :: string
  to_primitive_message :: string

text \<open>A request: its method and what \<^verbatim>\<open>req.json()\<close> gives, \<open>Inl\<close> the message of its rejection.\<close>

record request =
  req_method :: string
  json_body :: "string + jsval"

datatype resp_body = Text string | Json jsval

record http_response =
  status :: nat
  headers :: "(string \<times> string) list"
  body :: resp_body

text \<open>
  The call on the messaging provider: the URL, the two halves of the basic credentials
  and the form fields.
\<close>

record sms_request =
  url :: string
  basic_user :: string
  basic_password :: string
  To :: string
  From :: string
  Body :: string

text \<open>
  The answer to that call: the fetch rejects, or it gives a response with its \<open>ok\<close> flag
  and what \<^verbatim>\<open>response.json()\<close> would give.
\<close>

datatype twilio_answer = FetchRejected string | FetchResponse bool "string + jsval"

datatype gw_effect =
    Log string
  | LogError string string
  | Dispatch sms_request

definition corsHeaders :: "(string \<times> string) list" where
  "corsHeaders =
     [(''Access-Control-Allow-Origin'', ''*''),
      (''Access-Control-Allow-Headers'', ''authorization, x-client-info, apikey, content-type'')]"

definition missing_parameters_message :: string where
  "missing_parameters_message = ''Missing required parameters: phone, username, or password.''"

definition invalid_phone_message :: string where
  "invalid_phone_message =
     ''Invalid phone number format. Expected '' @ [CHR 0x27] @ ''+91'' @ [CHR 0x27]
       @ '' followed by 10 digits.''"

text \<open>
  The validation at the head of the \<^verbatim>\<open>try\<close> block: \<open>Inl\<close> the message of the error
  thrown, \<open>Inr\<close> the three values destructured from the body. The test of the pattern
  converts the phone to a string first, which can throw.
\<close>

definition validate :: "runtime \<Rightarrow> string + jsval \<Rightarrow> string + (jsval \<times> jsval \<times> jsval)" where
  "validate rt parsed =
     (case parsed of
        Inl m \<Rightarrow> Inl m
      | Inr v \<Rightarrow>
          if nullish v then Inl (destructure_null_message rt)
          else
            let phone = get_property v ''phone'';
                username = get_property v ''username'';
                password = get_property v ''password''
            in if \<not> truthy phone \<or> \<not> truthy username \<or> \<not> truthy password
               then Inl missing_parameters_message
               else (case to_string phone of
                       None \<Rightarrow> Inl (to_primitive_message rt)
                     | Some p \<Rightarrow>
                         if \<not> phone_regex_test p then Inl invalid_phone_message
                         else Inr (phone, username, password)))"

definition env_set :: "string option \<Rightarrow> bool" where
  "env_set v = (case v of None \<Rightarrow> False | Some x \<Rightarrow> x \<noteq> [])"

definition twilio_configured :: "runtime \<Rightarrow> bool" where
  "twilio_configured rt =
     (env_set (TWILIO_ACCOUNT_SID rt) \<and> env_set (TWILIO_AUTH_TOKEN rt)
      \<and> env_set (TWILIO_PHONE_NUMBER rt))"

text \<open>The template literal of the SMS text: the username is converted, then the password.\<close>

definition sms_message :: "jsval \<Rightarrow> jsval \<Rightarrow> string option" where
  "sms_message username password =
     (case to_string username of
        None \<Rightarrow> None
      | Some u \<Rightarrow>
          (case to_string password of
             None \<Rightarrow> None
           | Some w \<Rightarrow>
               Some (''Welcome to Nagar Rakshak! Your username is '' @ u
                       @ '' and your password is '' @ w @ ''. Please keep them safe.'')))"

text \<open>
  \<open>sms_of\<close> is used only where the three variables are set, so \<open>or_empty\<close> reads their
  values.
\<close>

definition sms_of :: "runtime \<Rightarrow> string \<Rightarrow> string \<Rightarrow> sms_request" where
  "sms_of rt to message =
     \<lparr>url = ''https://api.twilio.com/2010-04-01/Accounts/'' @ or_empty (TWILIO_ACCOUNT_SID rt)
              @ ''/Messages.json'',
      basic_user = or_empty (TWILIO_ACCOUNT_SID rt),
      basic_password = or_empty (TWILIO_AUTH_TOKEN rt),
      To = to,
      From = or_empty (TWILIO_PHONE_NUMBER rt),
      Body = message\<rparr>"

text \<open>
  The branch with credentials: the text is composed, the phone is converted for the form,
  the call is made, and a response that is not ok is turned into an error. \<open>Some\<close> is the
  message of the error thrown.
\<close>

definition send_sms ::
  "runtime \<Rightarrow> twilio_answer \<Rightarrow> jsval \<Rightarrow> jsval \<Rightarrow> jsval \<Rightarrow> string option \<times> gw_effect list" where
  "send_sms rt answer phone username password =
     (case sms_message username password of
        None \<Rightarrow> (Some (to_primitive_message rt), [])
      | Some message \<Rightarrow>
          (case to_string phone of
             None \<Rightarrow> (Some (to_primitive_message rt), [])
           | Some p \<Rightarrow>
               (case answer of
                  FetchRejected m \<Rightarrow> (Some m, [Dispatch (sms_of rt p message)])
                | FetchResponse ok parsed \<Rightarrow>
                    if ok then (None, [Dispatch (sms_of rt p message)])
                    else
                      (case parsed of
                         Inl m \<Rightarrow> (Some m, [Dispatch (sms_of rt p message)])
                       | Inr errorData \<Rightarrow>
                           if nullish errorData
                           then (Some (read_null_message rt), [Dispatch (sms_of rt p message)])
                           else if truthy (get_property errorData ''message'')
                           then (case to_string (get_property errorData ''message'') of
                                   None \<Rightarrow> (Some (to_primitive_message rt),
                                            [Dispatch (sms_of rt p message)])
                                 | Some t \<Rightarrow> (Some (''Twilio Error: '' @ t),
                                              [Dispatch (sms_of rt p message)]))
                           else (Some ''Twilio Error: Failed to send SMS.'',
                                 [Dispatch (sms_of rt p message)])))))"

text \<open>
  The branch without credentials: six \<^verbatim>\<open>console.log\<close> calls, of which the second
  converts the phone, the fourth the username and the fifth the password; a conversion
  that throws ends the branch after the lines logged so far.
\<close>

definition log_sms :: "runtime \<Rightarrow> jsval \<Rightarrow> jsval \<Rightarrow> jsval \<Rightarrow> string option \<times> gw_effect list" where
  "log_sms rt phone username password =
     (let line1 = Log ''--- Twilio credentials not found. Logging SMS content instead. ---'';
          line3 = Log ''Welcome to Nagar Rakshak!''
      in case to_string phone of
           None \<Rightarrow> (Some (to_primitive_message rt), [line1])
         | Some p \<Rightarrow>
             (case to_string username of
                None \<Rightarrow> (Some (to_primitive_message rt),
                         [line1, Log (''--- SMS to '' @ p @ '' ---''), line3])
              | Some u \<Rightarrow>
                  (case to_string password of
                     None \<Rightarrow> (Some (to_primitive_message rt),
                              [line1, Log (''--- SMS to '' @ p @ '' ---''), line3,
                               Log (''Your username: '' @ u)])
                   | Some w \<Rightarrow>
                       (None,
                        [line1, Log (''--- SMS to '' @ p @ '' ---''), line3,
                         Log (''Your username: '' @ u), Log (''Your password: '' @ w),
                         Log ''--- End of SMS ---'']))))"

definition deliver ::
  "runtime \<Rightarrow> twilio_answer \<Rightarrow> jsval \<Rightarrow> jsval \<Rightarrow> jsval \<Rightarrow> string option \<times> gw_effect list" where
  "deliver rt answer phone username password =
     (if twilio_configured rt then send_sms rt answer phone username password
      else log_sms rt phone username password)"

definition success_response :: http_response where
  "success_response =
     \<lparr>status = 200,
      headers = corsHeaders @ [(''Content-Type'', ''application/json'')],
      body = Json (JObj [(''success'', JBool True),
                         (''message'', JStr ''Credentials sent successfully.'')])\<rparr>"

definition error_response :: "string \<Rightarrow> http_response" where
  "error_response errorMessage =
     \<lparr>status = 400,
      headers = corsHeaders @ [(''Content-Type'', ''application/json'')],
      body = Json (JObj [(''success'', JBool False), (''error'', JStr errorMessage)])\<rparr>"

text \<open>
  The handler given to \<^verbatim>\<open>serve\<close>. Everything thrown inside the \<^verbatim>\<open>try\<close> block is an
  \<^verbatim>\<open>Error\<close>, so the \<^verbatim>\<open>catch\<close> block always answers with its message.
\<close>

definition handler :: "runtime \<Rightarrow> request \<Rightarrow> twilio_answer \<Rightarrow> http_response \<times> gw_effect list" where
  "handler rt req answer =
     (if req_method req = ''OPTIONS''
      then (\<lparr>status = 200, headers = corsHeaders, body = Text ''ok''\<rparr>, [])
      else
        (case validate rt (json_body req) of
           Inl m \<Rightarrow> (error_response m, [LogError ''Error sending credentials:'' m])
         | Inr (phone, username, password) \<Rightarrow>
             (case deliver rt answer phone username password of
                (Some m, es) \<Rightarrow> (error_response m, es @ [LogError ''Error sending credentials:'' m])
              | (None, es) \<Rightarrow> (success_response, es))))"

section \<open>Derived notions used in the statements\<close>

text \<open>
  What holds of the dialog's cells in every state the controls can reach: a selected
  complaint was not Resolved when its Update button was used, and the target status is
  the complaint's own status as pre-filled or an item of the selector.
\<close>

definition dialog_invariant :: "admin_state \<Rightarrow> bool" where
  "dialog_invariant s =
     (case selectedComplaint s of
        None \<Rightarrow> True
      | Some sel \<Rightarrow>
          \<not> update_disabled sel
          \<and> (newStatus s = or_empty (c_status sel) \<or> newStatus s \<in> set status_options))"

text \<open>
  Setting a status through the controls: open the dialog on a row, pick the status, type
  the worker's name and contact, press the button.
\<close>

definition set_status_by_controls ::
  "world \<Rightarrow> complaint \<Rightarrow> string \<Rightarrow> string \<Rightarrow> string
     \<Rightarrow> (unit pg_response) awaited \<Rightarrow> (unit pg_response) awaited
     \<Rightarrow> (world \<times> effect list) option" where
  "set_status_by_controls w c v name contact upd ins =
     ui_run w [ClickUpdate c, SelectNewStatus v, TypeWorkerName name,
               TypeWorkerContact contact, ClickUpdateStatus upd ins]"

definition no_error :: "(unit pg_response) awaited" where
  "no_error = Fulfilled \<lparr>data = None, error = None, count = None\<rparr>"

definition with_error :: "string \<Rightarrow> (unit pg_response) awaited" where
  "with_error e = Fulfilled \<lparr>data = None, error = Some e, count = None\<rparr>"

text \<open>
  The pattern as the specification words it: \<open>+91\<close> followed by exactly ten digits.
\<close>

definition plus91_and_ten_digits :: "string \<Rightarrow> bool" where
  "plus91_and_ten_digits s =
     (take 3 s = ''+91'' \<and> length (drop 3 s) = 10 \<and> list_all is_digit (drop 3 s))"

text \<open>
  The provider refuses the call: the fetch rejects, or the response is not ok.
\<close>

definition provider_refused :: "twilio_answer \<Rightarrow> bool" where
  "provider_refused answer =
     (case answer of FetchRejected m \<Rightarrow> True | FetchResponse ok parsed \<Rightarrow> \<not> ok)"

definition is_dispatch :: "gw_effect \<Rightarrow> bool" where
  "is_dispatch e = (case e of Dispatch r \<Rightarrow> True | _ \<Rightarrow> False)"

section \<open>Sample data\<close>

text \<open>A complaint, a filled-in dialog, a list of three rows and a store, used in the examples.\<close>

definition ex_complaint :: complaint where
  "ex_complaint = \<lparr>c_id = ''c-17'', complaint_code = ''NR-0017'', issue_type = Some ''Street Light'',
     c_status = Some ''Registered'', c_assigned_to = None, created_at = Some ''2025-01-05''\<rparr>"

definition ex_form :: admin_state where
  "ex_form = initial_state\<lparr>complaints := [ex_complaint], loading := False,
     assignDialogOpen := True, selectedComplaint := Some ex_complaint,
     workerName := ''Meera'', workerContact := ''9800000000'', newStatus := ''Assigned''\<rparr>"

definition ex_store :: record_store where
  "ex_store = \<lparr>complaints_tbl = [ex_complaint], status_updates_tbl = []\<rparr>"

definition ex_in_progress :: complaint where
  "ex_in_progress = ex_complaint\<lparr>c_id := ''c-18'', c_status := Some ''In-Progress'',
     c_assigned_to := Some ''Meera''\<rparr>"

definition ex_resolved :: complaint where
  "ex_resolved = ex_complaint\<lparr>c_id := ''c-19'', c_status := Some ''Resolved'',
     c_assigned_to := Some ''Meera''\<rparr>"

definition ex_listing :: admin_state where
  "ex_listing = initial_state\<lparr>complaints := [ex_complaint, ex_in_progress, ex_resolved],
     loading := False, totalComplaints := 3\<rparr>"

text \<open>A runtime without and one with the provider's credentials, and three request bodies.\<close>

definition ex_runtime_bare :: runtime where
  "ex_runtime_bare =
     \<lparr>TWILIO_ACCOUNT_SID = None, TWILIO_AUTH_TOKEN = None, TWILIO_PHONE_NUMBER = None,
      destructure_null_message = ''Cannot destructure property of null'',
      read_null_message = ''Cannot read properties of null'',
      to_primitive_message = ''Cannot convert object to primitive value''\<rparr>"

definition ex_runtime_twilio :: runtime where
  "ex_runtime_twilio =
     ex_runtime_bare\<lparr>TWILIO_ACCOUNT_SID := Some ''AC123'', TWILIO_AUTH_TOKEN := Some ''token'',
       TWILIO_PHONE_NUMBER := Some ''+15550100''\<rparr>"

definition ex_body_good :: jsval where
  "ex_body_good = JObj [(''phone'', JStr ''+911234567890''), (''username'', JStr ''meera''),
                        (''password'', JStr ''s3cret'')]"

definition ex_body_empty_username :: jsval where
  "ex_body_empty_username =
     JObj [(''phone'', JStr ''+911234567890''), (''username'', JStr []),
           (''password'', JStr ''s3cret'')]"

definition ex_body_short_phone :: jsval where
  "ex_body_short_phone = JObj [(''phone'', JStr ''+91123456789''), (''username'', JStr ''meera''),
                               (''password'', JStr ''s3cret'')]"

definition ex_body_object_username :: jsval where
  "ex_body_object_username =
     JObj [(''phone'', JStr ''+911234567890''),
           (''username'', JObj [(''toString'', JNum True ''1'')]),
           (''password'', JStr ''s3cret'')]"

definition ex_body_object_phone :: jsval where
  "ex_body_object_phone =
     JObj [(''phone'', JObj [(''toString'', JNum True ''1'')]),
           (''username'', JStr ''meera''), (''password'', JStr ''s3cret'')]"

definition post :: "jsval \<Rightarrow> request" where
  "post v = \<lparr>req_method = ''POST'', json_body = Inr v\<rparr>"

section \<open>Properties of the statistics reduction\<close>

lemma toLowerCase_literals:
  "toLowerCase ''Registered'' = ''registered''"
  "toLowerCase ''Assigned'' = ''assigned''"
  "toLowerCase ''In-Progress'' = ''in-progress''"
  "toLowerCase ''Resolved'' = ''resolved''"
  by (simp_all add: toLowerCase_def toLowerCase_char_def char_of_eq_iff)

lemma stats_step_fields:
  "pending (stats_step row acc) = pending acc + (if is_pending row then 1 else 0)"
  "inProgress (stats_step row acc) = inProgress acc + (if is_inProgress row then 1 else 0)"
  "resolved (stats_step row acc) = resolved acc + (if is_resolved row then 1 else 0)"
  "total (stats_step row acc) = total acc + 1"
  by (cases row;
      simp add: stats_step_def is_pending_def is_inProgress_def is_resolved_def
        equals_ignoring_case_def toLowerCase_literals Let_def)+

lemma fold_stats_step_fields:
  "pending (fold stats_step rows acc) = pending acc + length (filter is_pending rows)"
  "inProgress (fold stats_step rows acc) = inProgress acc + length (filter is_inProgress rows)"
  "resolved (fold stats_step rows acc) = resolved acc + length (filter is_resolved rows)"
  "total (fold stats_step rows acc) = total acc + length rows"
  by (induction rows arbitrary: acc; simp add: stats_step_fields)+

text \<open>
  C1. The reduction of fetchStats counts, over all rows, those whose status equals
  Registered (pending), Assigned or In-Progress (inProgress) and Resolved (resolved) up to
  letter case, and every row in total; a row of no known status (or of null status) is
  counted in total only; the statuses Registered, Registered, Assigned, Resolved, Unknown
  give 2, 1, 1 and 5.
\<close>

theorem C1_stats_counters:
  "pending (reduce_stats rows) = length (filter is_pending rows)
   \<and> inProgress (reduce_stats rows) = length (filter is_inProgress rows)
   \<and> resolved (reduce_stats rows) = length (filter is_resolved rows)
   \<and> total (reduce_stats rows) = length rows
   \<and> (\<not> is_pending row \<and> \<not> is_inProgress row \<and> \<not> is_resolved row \<longrightarrow>
        stats_step row acc = acc\<lparr>total := total acc + 1\<rparr>)
   \<and> stats_of_data (Some [Some ''Registered'', Some ''Registered'', Some ''Assigned'',
                            Some ''Resolved'', Some ''Unknown''])
       = \<lparr>pending = 2, inProgress = 1, resolved = 1, total = 5\<rparr>"
proof -
  have counters:
    "pending (reduce_stats rows) = length (filter is_pending rows)"
    "inProgress (reduce_stats rows) = length (filter is_inProgress rows)"
    "resolved (reduce_stats rows) = length (filter is_resolved rows)"
    "total (reduce_stats rows) = length rows"
    by (simp_all add: reduce_stats_def fold_stats_step_fields stats_zero_def)
  have unknown: "\<not> is_pending row \<and> \<not> is_inProgress row \<and> \<not> is_resolved row \<longrightarrow>
        stats_step row acc = acc\<lparr>total := total acc + 1\<rparr>"
    by (cases row)
       (auto simp add: stats_step_def is_pending_def is_inProgress_def is_resolved_def
          equals_ignoring_case_def toLowerCase_literals Let_def)
  have scenario: "stats_of_data (Some [Some ''Registered'', Some ''Registered'', Some ''Assigned'',
                            Some ''Resolved'', Some ''Unknown''])
       = \<lparr>pending = 2, inProgress = 1, resolved = 1, total = 5\<rparr>"
    by (simp add: stats_of_data_def reduce_stats_def stats_step_def stats_zero_def
          toLowerCase_def toLowerCase_char_def char_of_eq_iff Let_def)
  from counters unknown scenario show ?thesis by blast
qed

lemma eq_char_of_iff: "c = char_of n \<longleftrightarrow> take_bit 8 n = (of_char c :: nat)"
  using char_of_eq_iff [of n c] by auto

lemmas char_eval = char_of_eq_iff eq_char_of_iff

theorem C1_stats_counters_witness:
  "pending (reduce_stats [Some ''REGISTERED'', None, Some ''in-progress'', Some ''Closed'']) = 1
   \<and> inProgress (reduce_stats [Some ''REGISTERED'', None, Some ''in-progress'', Some ''Closed'']) = 1
   \<and> resolved (reduce_stats [Some ''REGISTERED'', None, Some ''in-progress'', Some ''Closed'']) = 0
   \<and> total (reduce_stats [Some ''REGISTERED'', None, Some ''in-progress'', Some ''Closed'']) = 4
   \<and> stats_step (Some ''Closed'') stats_zero = stats_zero\<lparr>total := 1\<rparr>"
  using C1_stats_counters [of "[Some ''REGISTERED'', None, Some ''in-progress'', Some ''Closed'']"
          "Some ''Closed''" stats_zero]
  by (simp add: is_pending_def is_inProgress_def is_resolved_def equals_ignoring_case_def
        toLowerCase_def toLowerCase_char_def char_eval stats_zero_def)

section \<open>Properties of the assignment dialog\<close>

lemma handleAssignWorker_valid:
  assumes "selectedComplaint s = Some sel" "workerName s \<noteq> []" "workerContact s \<noteq> []"
    "newStatus s \<noteq> []"
  shows "handleAssignWorker s db upd ins =
     (case thrown_by upd of
        Some e \<Rightarrow> (s, db, UpdateComplaint (c_id sel) (newStatus s) (workerName s) # assign_failed)
      | None \<Rightarrow>
         (case thrown_by ins of
            Some e \<Rightarrow> (s, store_update db (c_id sel) (newStatus s) (workerName s) upd,
                       UpdateComplaint (c_id sel) (newStatus s) (workerName s)
                         # InsertStatusUpdate (status_row s sel) # assign_failed)
          | None \<Rightarrow> (form_reset s,
                     store_insert (store_update db (c_id sel) (newStatus s) (workerName s) upd)
                       (status_row s sel) ins,
                     [UpdateComplaint (c_id sel) (newStatus s) (workerName s),
                      InsertStatusUpdate (status_row s sel), assigned_toast s sel])))"
  using assms
  by (simp add: handleAssignWorker_def Let_def store_update_def store_insert_def
        split: option.splits)

text \<open>
  C2. With a complaint selected and the three fields filled in, handleAssignWorker sends
  the update of the complaint first. If the update fails, it logs and shows the error
  toast and sends no insert; state and store are as before. If the update succeeds and
  the insert fails, the complaint stays updated in the store, no further call is sent,
  and the dialog stays open with its form as it was. If both succeed there is one update
  and one inserted row with the same complaint, status and worker, and the form is reset.
\<close>

theorem C2_two_writes_in_order:
  assumes "selectedComplaint s = Some sel" and "workerName s \<noteq> []"
    and "workerContact s \<noteq> []" and "newStatus s \<noteq> []"
  shows
    "(thrown_by upd \<noteq> None \<longrightarrow>
        handleAssignWorker s db upd ins =
          (s, db, [UpdateComplaint (c_id sel) (newStatus s) (workerName s),
                   ConsoleError ''Error assigning worker:'',
                   Toast ''Error assigning worker'' None True]))
     \<and> (thrown_by upd = None \<and> thrown_by ins \<noteq> None \<longrightarrow>
        handleAssignWorker s db upd ins =
          (s,
           db\<lparr>complaints_tbl :=
                 map (set_assignment (c_id sel) (newStatus s) (workerName s)) (complaints_tbl db)\<rparr>,
           [UpdateComplaint (c_id sel) (newStatus s) (workerName s),
            InsertStatusUpdate (status_row s sel),
            ConsoleError ''Error assigning worker:'',
            Toast ''Error assigning worker'' None True]))
     \<and> (thrown_by upd = None \<and> thrown_by ins = None \<longrightarrow>
        handleAssignWorker s db upd ins =
          (form_reset s,
           db\<lparr>complaints_tbl :=
                 map (set_assignment (c_id sel) (newStatus s) (workerName s)) (complaints_tbl db),
              status_updates_tbl := status_updates_tbl db @ [status_row s sel]\<rparr>,
           [UpdateComplaint (c_id sel) (newStatus s) (workerName s),
            InsertStatusUpdate (status_row s sel),
            assigned_toast s sel]))"
  using assms
  by (auto simp add: handleAssignWorker_valid assign_failed_def store_update_def store_insert_def)

theorem C2_two_writes_in_order_witness:
  "handleAssignWorker ex_form ex_store (with_error ''timeout'') no_error =
      (ex_form, ex_store,
       [UpdateComplaint ''c-17'' ''Assigned'' ''Meera'',
        ConsoleError ''Error assigning worker:'', Toast ''Error assigning worker'' None True])
   \<and> handleAssignWorker ex_form ex_store no_error (with_error ''denied'') =
      (ex_form,
       \<lparr>complaints_tbl = [ex_complaint\<lparr>c_status := Some ''Assigned'', c_assigned_to := Some ''Meera''\<rparr>],
        status_updates_tbl = []\<rparr>,
       [UpdateComplaint ''c-17'' ''Assigned'' ''Meera'',
        InsertStatusUpdate \<lparr>complaint_id = ''c-17'', su_status = ''Assigned'',
          su_assigned_to = ''Meera'', assigned_contact = ''9800000000'', su_note = []\<rparr>,
        ConsoleError ''Error assigning worker:'', Toast ''Error assigning worker'' None True])
   \<and> fst (handleAssignWorker ex_form ex_store no_error no_error) = form_reset ex_form"
  using C2_two_writes_in_order [of ex_form ex_complaint "with_error ''timeout''" ex_store no_error]
    C2_two_writes_in_order [of ex_form ex_complaint no_error ex_store "with_error ''denied''"]
    C2_two_writes_in_order [of ex_form ex_complaint no_error ex_store no_error]
  by (simp add: ex_form_def ex_store_def ex_complaint_def initial_state_def no_error_def
        with_error_def set_assignment_def status_row_def)

text \<open>
  C3. When no complaint is selected, or the worker's name, the worker's contact or the
  target status is empty, handleAssignWorker only shows the validation toast: it sends
  neither the update nor the insert and changes neither the state nor the store.
\<close>

theorem C3_incomplete_form_rejected:
  assumes "selectedComplaint s = None \<or> workerName s = [] \<or> workerContact s = [] \<or> newStatus s = []"
  shows "handleAssignWorker s db upd ins = (s, db, [Toast ''Please fill all fields'' None True])"
  using assms by (auto simp add: handleAssignWorker_def split: option.splits)

theorem C3_incomplete_form_rejected_witness:
  "handleAssignWorker (ex_form\<lparr>workerContact := []\<rparr>) ex_store no_error no_error =
     (ex_form\<lparr>workerContact := []\<rparr>, ex_store, [Toast ''Please fill all fields'' None True])"
  using C3_incomplete_form_rejected [of "ex_form\<lparr>workerContact := []\<rparr>" ex_store no_error no_error]
  by simp

text \<open>
  C10. openAssignDialog fills the worker-contact field with the complaint's status (empty
  when the status is null), the worker-name field with the assigned worker and the status
  field with the current status, selects the complaint and opens the dialog.
\<close>

theorem C10_dialog_prefill:
  "workerContact (openAssignDialog s c) = or_empty (c_status c)
   \<and> workerName (openAssignDialog s c) = or_empty (c_assigned_to c)
   \<and> newStatus (openAssignDialog s c) = or_empty (c_status c)
   \<and> selectedComplaint (openAssignDialog s c) = Some c
   \<and> assignDialogOpen (openAssignDialog s c)
   \<and> workerContact (openAssignDialog s (c\<lparr>c_status := None\<rparr>)) = []
   \<and> workerContact (openAssignDialog s (c\<lparr>c_status := Some v\<rparr>)) = v"
  by (simp add: openAssignDialog_def)

theorem C10_dialog_prefill_witness:
  "workerContact (openAssignDialog initial_state ex_complaint) = ''Registered''
   \<and> workerName (openAssignDialog initial_state ex_complaint) = []
   \<and> newStatus (openAssignDialog initial_state ex_complaint) = ''Registered''"
  using C10_dialog_prefill [of initial_state ex_complaint]
  by (simp add: ex_complaint_def)

section \<open>Properties of the list query and of the pagination\<close>

lemma complaints_query_fields:
  "q_table (complaints_query s page) = ''complaints''"
  "q_columns (complaints_query s page) = ''*''"
  "q_count (complaints_query s page) = Some ''exact''"
  "q_eq (complaints_query s page) =
     (if f_status (filters_cell s) \<noteq> [] then [(''status'', f_status (filters_cell s))] else [])
     @ (if f_issueType (filters_cell s) \<noteq> []
        then [(''issue_type'', f_issueType (filters_cell s))] else [])"
  "q_range (complaints_query s page) =
     Some ((page - 1) * complaintsPerPage s, page * complaintsPerPage s - 1)"
  "q_order (complaints_query s page) = Some (''created_at'', False)"
  by (simp_all add: complaints_query_def Let_def select_q_def eq_q_def range_q_def order_q_def
        from_table_def algebra_simps)

text \<open>
  C4. The query of fetchComplaints asks for the exact count, has an equality predicate on
  status exactly when the status filter is not empty and one on issue_type exactly when
  the issue filter is not empty (and no other predicate), is restricted to the rows
  (page - 1) * pageSize to page * pageSize - 1, and is ordered by created_at descending;
  the rows of the answer are held as they arrive.
\<close>

theorem C4_query_of_filters_and_page:
  "q_count (complaints_query s page) = Some ''exact''
   \<and> ((\<exists>v. (''status'', v) \<in> set (q_eq (complaints_query s page)))
        \<longleftrightarrow> f_status (filters_cell s) \<noteq> [])
   \<and> ((\<exists>v. (''issue_type'', v) \<in> set (q_eq (complaints_query s page)))
        \<longleftrightarrow> f_issueType (filters_cell s) \<noteq> [])
   \<and> q_eq (complaints_query s page) =
        (if f_status (filters_cell s) \<noteq> [] then [(''status'', f_status (filters_cell s))] else [])
        @ (if f_issueType (filters_cell s) \<noteq> []
           then [(''issue_type'', f_issueType (filters_cell s))] else [])
   \<and> q_range (complaints_query s page) =
        Some ((page - 1) * complaintsPerPage s, page * complaintsPerPage s - 1)
   \<and> q_order (complaints_query s page) = Some (''created_at'', False)
   \<and> snd (fetchComplaints_send s page) = [SelectComplaints (complaints_query s page)]
   \<and> complaints (fst (fetchComplaints_receive s
          (Fulfilled \<lparr>data = Some rows, error = None, count = n\<rparr>))) = rows"
proof -
  have b: "(\<exists>v. (''status'', v) \<in> set (q_eq (complaints_query s page)))
        \<longleftrightarrow> f_status (filters_cell s) \<noteq> []"
    by (auto simp add: complaints_query_fields)
  have c: "(\<exists>v. (''issue_type'', v) \<in> set (q_eq (complaints_query s page)))
        \<longleftrightarrow> f_issueType (filters_cell s) \<noteq> []"
    by (auto simp add: complaints_query_fields)
  have f: "snd (fetchComplaints_send s page) = [SelectComplaints (complaints_query s page)]"
    by (simp add: fetchComplaints_send_def)
  have g: "complaints (fst (fetchComplaints_receive s
          (Fulfilled \<lparr>data = Some rows, error = None, count = n\<rparr>))) = rows"
    by simp
  show ?thesis
    using b c f g complaints_query_fields(3,4,5,6) [of s page] by simp
qed

theorem C4_query_of_filters_and_page_witness:
  "complaints_query (initial_state\<lparr>filters_cell := \<lparr>f_status = ''Assigned'', f_issueType = []\<rparr>\<rparr>) 3
     = \<lparr>q_table = ''complaints'', q_columns = ''*'', q_count = Some ''exact'',
        q_eq = [(''status'', ''Assigned'')], q_range = Some (10, 14),
        q_order = Some (''created_at'', False)\<rparr>"
  using C4_query_of_filters_and_page
    [of "initial_state\<lparr>filters_cell := \<lparr>f_status = ''Assigned'', f_issueType = []\<rparr>\<rparr>" 3]
  by (simp add: initial_state_def complaints_query_def Let_def select_q_def eq_q_def range_q_def
        order_q_def from_table_def)

text \<open>
  C8. Previous is disabled exactly when the current page is 1 and Next exactly when
  currentPage * complaintsPerPage is at least totalComplaints; a disabled button takes no
  click.
\<close>

theorem C8_pagination_controls:
  "(previous_disabled s \<longleftrightarrow> currentPage s = 1)
   \<and> (next_disabled s \<longleftrightarrow> currentPage s * complaintsPerPage s \<ge> totalComplaints s)
   \<and> (ui_step (s, db) ClickPrevious = None \<longleftrightarrow> currentPage s = 1)
   \<and> (ui_step (s, db) ClickNext = None
        \<longleftrightarrow> currentPage s * complaintsPerPage s \<ge> totalComplaints s)"
  by (simp add: previous_disabled_def next_disabled_def)

theorem C8_pagination_controls_witness:
  "previous_disabled (initial_state\<lparr>totalComplaints := 12\<rparr>)
   \<and> \<not> next_disabled (initial_state\<lparr>totalComplaints := 12\<rparr>)
   \<and> next_disabled (initial_state\<lparr>totalComplaints := 12, currentPage := 3\<rparr>)
   \<and> \<not> previous_disabled (initial_state\<lparr>totalComplaints := 12, currentPage := 3\<rparr>)"
  using C8_pagination_controls [of "initial_state\<lparr>totalComplaints := 12\<rparr>"]
    C8_pagination_controls [of "initial_state\<lparr>totalComplaints := 12, currentPage := 3\<rparr>"]
  by (simp add: initial_state_def)

text \<open>
  C9. When the fetch of the list fails (the promise rejects or the answer carries an
  error), the held list and the total count stay as they were, the error is logged and
  shown as a toast, and the loading flag is cleared.
\<close>

theorem C9_failed_fetch_keeps_list:
  assumes "thrown_by answer \<noteq> None"
  shows "fetchComplaints_receive s answer =
           (s\<lparr>loading := False\<rparr>,
            [ConsoleError ''Error fetching complaints:'',
             Toast ''Error fetching complaints'' None True])
         \<and> complaints (fst (fetchComplaints s page answer)) = complaints s
         \<and> totalComplaints (fst (fetchComplaints s page answer)) = totalComplaints s
         \<and> \<not> loading (fst (fetchComplaints s page answer))
         \<and> snd (fetchComplaints s page answer) =
             [SelectComplaints (complaints_query s page),
              ConsoleError ''Error fetching complaints:'',
              Toast ''Error fetching complaints'' None True]"
  using assms
  by (cases answer)
     (auto simp add: fetchComplaints_def fetchComplaints_send_def fetch_failed_def
        complaints_query_def Let_def split: option.splits)

theorem C9_failed_fetch_keeps_list_witness:
  "fetchComplaints_receive ex_form (Rejected ''Failed to fetch'') =
     (ex_form, [ConsoleError ''Error fetching complaints:'',
                Toast ''Error fetching complaints'' None True])
   \<and> complaints (fst (fetchComplaints ex_form 1
         (Fulfilled \<lparr>data = None, error = Some ''permission denied'', count = None\<rparr>)))
       = [ex_complaint]"
  using C9_failed_fetch_keeps_list [of "Rejected ''Failed to fetch''" ex_form 1]
    C9_failed_fetch_keeps_list
      [of "Fulfilled \<lparr>data = None, error = Some ''permission denied'', count = None\<rparr>" ex_form 1]
  by (simp add: ex_form_def initial_state_def)

section \<open>Status transitions through the controls\<close>

lemma handleAssignWorker_invariant:
  assumes "dialog_invariant s" and "handleAssignWorker s db upd ins = (s', db', es)"
  shows "dialog_invariant s'"
proof (cases "selectedComplaint s")
  case None
  with assms show ?thesis by (simp add: handleAssignWorker_def)
next
  case (Some sel)
  show ?thesis
  proof (cases "workerName s = [] \<or> workerContact s = [] \<or> newStatus s = []")
    case True
    with Some assms show ?thesis by (auto simp add: handleAssignWorker_def)
  next
    case False
    then have "s' = s \<or> s' = form_reset s"
      using Some assms(2)
      by (auto simp add: handleAssignWorker_valid split: option.splits)
    then show ?thesis
      using assms(1) by (auto simp add: dialog_invariant_def form_reset_def)
  qed
qed

lemma ui_step_invariant:
  assumes "dialog_invariant s" and "ui_step (s, db) a = Some ((s', db'), es)"
  shows "dialog_invariant s'"
proof (cases a)
  case (ClickUpdate c)
  with assms(2) show ?thesis
    by (auto simp add: dialog_invariant_def openAssignDialog_def split: if_splits)
next
  case (SelectNewStatus v)
  with assms show ?thesis
    by (auto simp add: dialog_invariant_def split: if_splits option.splits)
next
  case (ClickUpdateStatus upd ins)
  with assms show ?thesis
    by (auto split: if_splits prod.splits dest: handleAssignWorker_invariant)
next
  case (ComplaintsAnswer answer)
  with assms show ?thesis
    by (cases answer)
       (auto simp add: dialog_invariant_def fetch_failed_def split: option.splits)
next
  case (StatsAnswer answer)
  with assms show ?thesis
    by (cases answer) (auto simp add: dialog_invariant_def split: option.splits)
qed (use assms in \<open>auto simp add: dialog_invariant_def fetchComplaints_send_def
       split: if_splits option.splits\<close>)

lemma ui_run_invariant:
  "dialog_invariant (fst w) \<Longrightarrow> ui_run w as = Some (w', es) \<Longrightarrow> dialog_invariant (fst w')"
proof (induction as arbitrary: w es)
  case Nil
  then show ?case by simp
next
  case (Cons a as)
  from Cons.prems(2) obtain w1 es1 es2 where
    step: "ui_step w a = Some (w1, es1)" and rest: "ui_run w1 as = Some (w', es2)"
    by (auto split: option.splits prod.splits)
  have "dialog_invariant (fst w1)"
    using ui_step_invariant [of "fst w" "snd w" a "fst w1" "snd w1" es1] Cons.prems(1) step
    by simp
  then show ?case using Cons.IH rest by blast
qed

lemma set_status_by_controls_accepts:
  assumes "row_shown s c" and "\<not> update_disabled c" and "v \<in> set status_options"
    and "name \<noteq> []" and "contact \<noteq> []"
  shows "map_option snd (set_status_by_controls (s, db) c v name contact no_error no_error) =
     Some [UpdateComplaint (c_id c) v name,
           InsertStatusUpdate \<lparr>complaint_id = c_id c, su_status = v, su_assigned_to = name,
             assigned_contact = contact, su_note = statusNote s\<rparr>,
           Toast ''Worker Assigned Successfully''
             (Some (name @ '' has been assigned to complaint '' @ complaint_code c)) False]"
proof -
  have "v \<noteq> []"
    using assms(3) by (auto simp add: status_options_def)
  then show ?thesis
    using assms
    by (simp add: set_status_by_controls_def dialog_shown_def openAssignDialog_def
          handleAssignWorker_def no_error_def Let_def status_row_def assigned_toast_def
          store_update_def store_insert_def form_reset_def)
qed

lemma handleAssignWorker_ignores_status:
  "snd (snd (handleAssignWorker (s\<lparr>selectedComplaint := Some (c\<lparr>c_status := x\<rparr>)\<rparr>) db upd ins))
     = snd (snd (handleAssignWorker (s\<lparr>selectedComplaint := Some c\<rparr>) db upd ins))"
  by (simp add: handleAssignWorker_def Let_def status_row_def assigned_toast_def
        split: option.splits)

text \<open>
  The controls do constrain the transitions: the Update button of a row whose status is
  Resolved is disabled, so no status can be set from Resolved through them, and the
  selector of the dialog has no item Registered.
\<close>

theorem C7_any_transition_counterexample:
  "set_status_by_controls (ex_listing, ex_store) ex_resolved ''Assigned'' ''Meera'' ''9800000000''
      no_error no_error = None
   \<and> ui_step (ex_listing, ex_store) (ClickUpdate ex_resolved) = None
   \<and> ui_step (openAssignDialog ex_listing ex_in_progress, ex_store) (SelectNewStatus ''Registered'')
       = None"
  by (simp add: set_status_by_controls_def ex_listing_def ex_resolved_def ex_in_progress_def
        ex_complaint_def initial_state_def update_disabled_def row_shown_def status_options_def)

text \<open>
  C7. handleAssignWorker does not look at the current status of the selected
  complaint. Through the controls, a row that is shown and whose status is not Resolved
  accepts each of Assigned, In-Progress and Resolved as its new status, in any order; the
  Update button of a Resolved row takes no click, the selector takes no other value, and
  in every state reached from the initial one the selected complaint is not a Resolved
  one and the target status is its pre-filled own status or an item of the selector.
\<close>

theorem C7_transitions_through_controls:
  "snd (snd (handleAssignWorker (s\<lparr>selectedComplaint := Some (c\<lparr>c_status := x\<rparr>)\<rparr>) db upd ins))
     = snd (snd (handleAssignWorker (s\<lparr>selectedComplaint := Some c\<rparr>) db upd ins))
   \<and> (row_shown s c \<and> c_status c \<noteq> Some ''Resolved'' \<and> v \<in> set status_options
        \<and> name \<noteq> [] \<and> contact \<noteq> [] \<longrightarrow>
        map_option snd (set_status_by_controls (s, db) c v name contact no_error no_error) =
          Some [UpdateComplaint (c_id c) v name,
                InsertStatusUpdate \<lparr>complaint_id = c_id c, su_status = v, su_assigned_to = name,
                  assigned_contact = contact, su_note = statusNote s\<rparr>,
                Toast ''Worker Assigned Successfully''
                  (Some (name @ '' has been assigned to complaint '' @ complaint_code c)) False])
   \<and> (c_status c = Some ''Resolved'' \<longrightarrow> ui_step (s, db) (ClickUpdate c) = None)
   \<and> (v \<notin> set status_options \<longrightarrow> ui_step (s, db) (SelectNewStatus v) = None)
   \<and> (ui_run (initial_state, db0) as = Some ((s', db'), es) \<and> selectedComplaint s' = Some sel
        \<longrightarrow> c_status sel \<noteq> Some ''Resolved''
            \<and> (newStatus s' = or_empty (c_status sel) \<or> newStatus s' \<in> set status_options))"
proof -
  have b: "row_shown s c \<and> c_status c \<noteq> Some ''Resolved'' \<and> v \<in> set status_options
        \<and> name \<noteq> [] \<and> contact \<noteq> [] \<longrightarrow>
        map_option snd (set_status_by_controls (s, db) c v name contact no_error no_error) =
          Some [UpdateComplaint (c_id c) v name,
                InsertStatusUpdate \<lparr>complaint_id = c_id c, su_status = v, su_assigned_to = name,
                  assigned_contact = contact, su_note = statusNote s\<rparr>,
                Toast ''Worker Assigned Successfully''
                  (Some (name @ '' has been assigned to complaint '' @ complaint_code c)) False]"
    using set_status_by_controls_accepts [of s c v name contact db]
    by (simp add: update_disabled_def)
  have c: "c_status c = Some ''Resolved'' \<longrightarrow> ui_step (s, db) (ClickUpdate c) = None"
    by (simp add: update_disabled_def)
  have d: "v \<notin> set status_options \<longrightarrow> ui_step (s, db) (SelectNewStatus v) = None"
    by simp
  have e: "ui_run (initial_state, db0) as = Some ((s', db'), es) \<and> selectedComplaint s' = Some sel
        \<longrightarrow> c_status sel \<noteq> Some ''Resolved''
            \<and> (newStatus s' = or_empty (c_status sel) \<or> newStatus s' \<in> set status_options)"
  proof
    assume run: "ui_run (initial_state, db0) as = Some ((s', db'), es) \<and> selectedComplaint s' = Some sel"
    have "dialog_invariant (fst (initial_state, db0))"
      by (simp add: dialog_invariant_def initial_state_def)
    then have "dialog_invariant (fst (s', db'))"
      using run ui_run_invariant by blast
    then show "c_status sel \<noteq> Some ''Resolved''
            \<and> (newStatus s' = or_empty (c_status sel) \<or> newStatus s' \<in> set status_options)"
      using run by (simp add: dialog_invariant_def update_disabled_def)
  qed
  from handleAssignWorker_ignores_status [where s = s and c = c and x = x and db = db
      and upd = upd and ins = ins] b c d e
  show ?thesis
    by blast
qed

theorem C7_transitions_through_controls_witness:
  "map_option snd (set_status_by_controls (ex_listing, ex_store) ex_in_progress ''Assigned''
       ''Kiran'' ''9811111111'' no_error no_error) =
     Some [UpdateComplaint ''c-18'' ''Assigned'' ''Kiran'',
           InsertStatusUpdate \<lparr>complaint_id = ''c-18'', su_status = ''Assigned'',
             su_assigned_to = ''Kiran'', assigned_contact = ''9811111111'', su_note = []\<rparr>,
           Toast ''Worker Assigned Successfully''
             (Some ''Kiran has been assigned to complaint NR-0017'') False]
   \<and> ui_step (openAssignDialog ex_listing ex_in_progress, ex_store) (ClickUpdate ex_resolved) = None
   \<and> ui_step (openAssignDialog ex_listing ex_in_progress, ex_store) (SelectNewStatus ''Registered'')
       = None
   \<and> dialog_shown (openAssignDialog ex_listing ex_in_progress)
   \<and> newStatus (openAssignDialog ex_listing ex_complaint) = ''Registered''"
proof -
  have run: "ui_run (initial_state, ex_store)
       [RunEffect,
        ComplaintsAnswer (Fulfilled \<lparr>data = Some [ex_complaint, ex_in_progress, ex_resolved],
                                      error = None, count = Some 3\<rparr>),
        ClickUpdate ex_complaint]
     = Some ((openAssignDialog ex_listing ex_complaint, ex_store),
             [SelectComplaints (complaints_query initial_state 1), SelectStatusColumn])"
    by (simp add: initial_state_def fetchComplaints_send_def row_shown_def update_disabled_def
          ex_listing_def ex_complaint_def)
  have sel: "selectedComplaint (openAssignDialog ex_listing ex_complaint) = Some ex_complaint"
    by (simp add: openAssignDialog_def)
  show ?thesis
    using C7_transitions_through_controls
      [where s = ex_listing and c = ex_in_progress and x = "Some ''Registered''"
         and db = ex_store and upd = no_error and ins = no_error
         and v = "''Assigned''" and name = "''Kiran''" and contact = "''9811111111''"
         and ?db0.0 = ex_store
         and as = "[RunEffect,
            ComplaintsAnswer (Fulfilled \<lparr>data = Some [ex_complaint, ex_in_progress, ex_resolved],
                                          error = None, count = Some 3\<rparr>),
            ClickUpdate ex_complaint]"
         and s' = "openAssignDialog ex_listing ex_complaint" and db' = ex_store
         and es = "[SelectComplaints (complaints_query initial_state 1), SelectStatusColumn]"
         and sel = ex_complaint]
      C7_transitions_through_controls
      [where s = "openAssignDialog ex_listing ex_in_progress" and c = ex_resolved and x = None
         and db = ex_store and upd = no_error and ins = no_error
         and v = "''Registered''" and name = "''Kiran''" and contact = "''9811111111''"
         and ?db0.0 = ex_store and as = "[]" and s' = initial_state and db' = ex_store
         and es = "[]" and sel = ex_complaint]
      run sel
    by (simp add: ex_listing_def ex_in_progress_def ex_resolved_def ex_complaint_def
          initial_state_def row_shown_def status_options_def openAssignDialog_def
          dialog_shown_def)
qed

section \<open>Properties of the credential gateway\<close>

lemma match_literal_iff: "match_literal l s = Some r \<longleftrightarrow> s = l @ r"
  by (induction l s rule: match_literal.induct) auto

lemma match_digits_iff:
  "match_digits n s = Some r \<longleftrightarrow> (\<exists>ds. s = ds @ r \<and> length ds = n \<and> list_all is_digit ds)"
proof (induction n s rule: match_digits.induct)
  case (1 s)
  then show ?case by auto
next
  case (2 n)
  then show ?case by auto
next
  case (3 n c cs)
  show ?case
  proof (cases "is_digit c")
    case True
    have "(\<exists>ds. c # cs = ds @ r \<and> length ds = Suc n \<and> list_all is_digit ds)
          \<longleftrightarrow> (\<exists>ds. cs = ds @ r \<and> length ds = n \<and> list_all is_digit ds)"
      (is "?L \<longleftrightarrow> ?R")
    proof
      assume ?L
      then obtain ds where ds: "c # cs = ds @ r" "length ds = Suc n" "list_all is_digit ds"
        by blast
      then obtain d ds' where "ds = d # ds'" by (cases ds) auto
      with ds show ?R by auto
    next
      assume ?R
      then obtain ds where "cs = ds @ r" "length ds = n" "list_all is_digit ds" by blast
      with True have "c # cs = (c # ds) @ r \<and> length (c # ds) = Suc n \<and> list_all is_digit (c # ds)"
        by simp
      then show ?L by blast
    qed
    with True 3 show ?thesis by simp
  next
    case False
    have "\<not> (\<exists>ds. c # cs = ds @ r \<and> length ds = Suc n \<and> list_all is_digit ds)"
    proof
      assume "\<exists>ds. c # cs = ds @ r \<and> length ds = Suc n \<and> list_all is_digit ds"
      then obtain ds where ds: "c # cs = ds @ r" "length ds = Suc n" "list_all is_digit ds"
        by blast
      then obtain d ds' where "ds = d # ds'" by (cases ds) auto
      with ds False show False by auto
    qed
    with False show ?thesis by simp
  qed
qed

lemma phone_regex_test_iff: "phone_regex_test s \<longleftrightarrow> plus91_and_ten_digits s"
proof
  assume "phone_regex_test s"
  then obtain r where r: "match_literal ''+91'' s = Some r" and d: "match_digits 10 r = Some []"
    by (auto simp add: phone_regex_test_def split: option.splits)
  from r have s: "s = ''+91'' @ r" by (simp only: match_literal_iff)
  from d have "length r = 10 \<and> list_all is_digit r" by (auto simp add: match_digits_iff)
  with s show "plus91_and_ten_digits s" by (simp add: plus91_and_ten_digits_def)
next
  assume p: "plus91_and_ten_digits s"
  then have "s = ''+91'' @ drop 3 s"
    by (metis append_take_drop_id plus91_and_ten_digits_def)
  then have r: "match_literal ''+91'' s = Some (drop 3 s)"
    by (simp only: match_literal_iff)
  from p have "match_digits 10 (drop 3 s) = Some []"
    by (simp add: match_digits_iff plus91_and_ten_digits_def)
  with r show "phone_regex_test s" by (simp add: phone_regex_test_def)
qed

lemma digit_eval:
  "is_digit CHR ''0''" "is_digit CHR ''1''" "is_digit CHR ''2''" "is_digit CHR ''3''"
  "is_digit CHR ''4''" "is_digit CHR ''5''" "is_digit CHR ''6''" "is_digit CHR ''7''"
  "is_digit CHR ''8''" "is_digit CHR ''9''"
  by (simp_all add: is_digit_def)

lemma validate_cases:
  assumes "json_body req = Inr v"
  shows "validate rt (json_body req) =
     (if nullish v then Inl (destructure_null_message rt)
      else if \<not> truthy (get_property v ''phone'') \<or> \<not> truthy (get_property v ''username'')
          \<or> \<not> truthy (get_property v ''password'')
      then Inl missing_parameters_message
      else (case to_string (get_property v ''phone'') of
              None \<Rightarrow> Inl (to_primitive_message rt)
            | Some p \<Rightarrow>
                if \<not> plus91_and_ten_digits p then Inl invalid_phone_message
                else Inr (get_property v ''phone'', get_property v ''username'',
                          get_property v ''password'')))"
  using assms by (simp add: validate_def Let_def phone_regex_test_iff split: option.splits)

lemma send_sms_throws_iff:
  "fst (send_sms rt answer phone username password) \<noteq> None \<longleftrightarrow>
     to_string username = None \<or> to_string password = None \<or> to_string phone = None
     \<or> provider_refused answer"
  by (auto simp add: send_sms_def sms_message_def provider_refused_def
        split: option.splits twilio_answer.splits sum.splits)

lemma log_sms_throws_iff:
  "fst (log_sms rt phone username password) \<noteq> None \<longleftrightarrow>
     to_string username = None \<or> to_string password = None \<or> to_string phone = None"
  by (auto simp add: log_sms_def Let_def split: option.splits)

lemma deliver_throws_iff:
  "fst (deliver rt answer phone username password) \<noteq> None \<longleftrightarrow>
     to_string username = None \<or> to_string password = None \<or> to_string phone = None
     \<or> (twilio_configured rt \<and> provider_refused answer)"
  using send_sms_throws_iff [of rt answer phone username password]
    log_sms_throws_iff [of rt phone username password]
  by (simp add: deliver_def)

lemma handler_status_of_parts:
  assumes "req_method req \<noteq> ''OPTIONS''"
  shows "handler rt req answer =
     (case validate rt (json_body req) of
        Inl m \<Rightarrow> (error_response m, [LogError ''Error sending credentials:'' m])
      | Inr (phone, username, password) \<Rightarrow>
          (case fst (deliver rt answer phone username password) of
             Some m \<Rightarrow> (error_response m,
                        snd (deliver rt answer phone username password)
                          @ [LogError ''Error sending credentials:'' m])
           | None \<Rightarrow> (success_response, snd (deliver rt answer phone username password))))"
  using assms by (simp add: handler_def split: sum.splits prod.splits option.splits)

lemma status_responses:
  "status (error_response m) = 400" "status success_response = 200"
  by (simp_all add: error_response_def success_response_def)

lemma handler_status_iff:
  assumes "req_method req \<noteq> ''OPTIONS''" and "json_body req = Inr v"
  shows "status (fst (handler rt req answer)) = 400 \<longleftrightarrow>
     nullish v
     \<or> \<not> truthy (get_property v ''phone'') \<or> \<not> truthy (get_property v ''username'')
     \<or> \<not> truthy (get_property v ''password'')
     \<or> to_string (get_property v ''phone'') = None
     \<or> (\<exists>p. to_string (get_property v ''phone'') = Some p \<and> \<not> plus91_and_ten_digits p)
     \<or> to_string (get_property v ''username'') = None
     \<or> to_string (get_property v ''password'') = None
     \<or> (twilio_configured rt \<and> provider_refused answer)"
proof (cases "validate rt (json_body req)")
  case (Inl m)
  then have "status (fst (handler rt req answer)) = 400"
    using assms(1) by (simp add: handler_status_of_parts status_responses)
  moreover have "nullish v
     \<or> \<not> truthy (get_property v ''phone'') \<or> \<not> truthy (get_property v ''username'')
     \<or> \<not> truthy (get_property v ''password'')
     \<or> to_string (get_property v ''phone'') = None
     \<or> (\<exists>p. to_string (get_property v ''phone'') = Some p \<and> \<not> plus91_and_ten_digits p)"
    using Inl validate_cases [OF assms(2), of rt]
    by (auto split: if_splits option.splits)
  ultimately show ?thesis by blast
next
  case (Inr t)
  obtain phone username password where t: "t = (phone, username, password)"
    by (cases t) auto
  from Inr t validate_cases [OF assms(2), of rt]
  have ok: "\<not> nullish v" "truthy (get_property v ''phone'')" "truthy (get_property v ''username'')"
    "truthy (get_property v ''password'')"
    "\<exists>p. to_string (get_property v ''phone'') = Some p \<and> plus91_and_ten_digits p"
    and eq: "phone = get_property v ''phone''" "username = get_property v ''username''"
      "password = get_property v ''password''"
    by (auto split: if_splits option.splits)
  have "status (fst (handler rt req answer)) = 400 \<longleftrightarrow>
          fst (deliver rt answer phone username password) \<noteq> None"
    using Inr t assms(1)
    by (auto simp add: handler_status_of_parts status_responses split: option.splits)
  then show ?thesis
    using ok eq deliver_throws_iff [of rt answer phone username password] by auto
qed


lemma response_of_handler:
  assumes "req_method req \<noteq> ''OPTIONS''"
  shows "(\<exists>m. fst (handler rt req answer) = error_response m)
         \<or> fst (handler rt req answer) = success_response"
  using assms
  by (auto simp add: handler_status_of_parts split: sum.splits prod.splits option.splits)

text \<open>
  A body whose three fields are all there and whose phone matches the pattern is still
  rejected when one of the fields is the empty string: the test is on truthiness, not on
  presence. And a body that passes the validation is still answered with the error
  response, without any delivery being tried, when its username is an object with an own
  property \<open>toString\<close>: the template literal that converts it throws.
\<close>

theorem C5_present_fields_counterexample:
  "map_of [(''phone'', JStr ''+911234567890''), (''username'', JStr []),
           (''password'', JStr ''s3cret'')] ''username'' = Some (JStr [])
   \<and> get_property ex_body_empty_username ''phone'' = JStr ''+911234567890''
   \<and> get_property ex_body_empty_username ''password'' = JStr ''s3cret''
   \<and> phone_regex_test ''+911234567890''
   \<and> validate ex_runtime_bare (Inr ex_body_empty_username) = Inl missing_parameters_message
   \<and> status (fst (handler ex_runtime_bare (post ex_body_empty_username)
                     (FetchResponse True (Inr JNull)))) = 400
   \<and> validate ex_runtime_bare (Inr ex_body_object_username)
       = Inr (JStr ''+911234567890'', JObj [(''toString'', JNum True ''1'')], JStr ''s3cret'')
   \<and> snd (handler ex_runtime_bare (post ex_body_object_username) (FetchResponse True (Inr JNull)))
       = [Log ''--- Twilio credentials not found. Logging SMS content instead. ---'',
          Log ''--- SMS to +911234567890 ---'',
          Log ''Welcome to Nagar Rakshak!'',
          LogError ''Error sending credentials:'' ''Cannot convert object to primitive value'']
   \<and> status (fst (handler ex_runtime_bare (post ex_body_object_username)
                     (FetchResponse True (Inr JNull)))) = 400"
  by (simp add: ex_body_empty_username_def ex_body_object_username_def phone_regex_test_def
        digit_eval eval_nat_numeral validate_def nullish_def handler_def post_def
        error_response_def deliver_def log_sms_def twilio_configured_def env_set_def
        ex_runtime_bare_def Let_def)

text \<open>
  C5. For a request that is not a preflight and whose body parses, the answer is the 400
  error response exactly when the body is null, one of phone, username and password is
  absent or falsy (null, false, zero, the empty string), the phone cannot be converted to
  a string or, converted, is not \<open>+91\<close> followed by exactly ten digits, the username or
  the password cannot be converted to a string, or the credentials are set and the
  provider refuses the call (the fetch rejects or the response is not ok); every other
  request is answered with the success response. The rejections of the validation carry
  the engine's message for a null body and for a phone that cannot be converted, the
  missing-parameters message for an absent or falsy field, and the invalid-format message
  for a phone that does not match; a body whose three fields are truthy and whose phone
  converts and matches passes the validation.
\<close>

theorem C5_validation_of_the_body:
  assumes "req_method req \<noteq> ''OPTIONS''" and "json_body req = Inr v"
  shows
    "(status (fst (handler rt req answer)) = 400 \<longleftrightarrow>
        nullish v
        \<or> \<not> truthy (get_property v ''phone'') \<or> \<not> truthy (get_property v ''username'')
        \<or> \<not> truthy (get_property v ''password'')
        \<or> to_string (get_property v ''phone'') = None
        \<or> (\<exists>p. to_string (get_property v ''phone'') = Some p \<and> \<not> plus91_and_ten_digits p)
        \<or> to_string (get_property v ''username'') = None
        \<or> to_string (get_property v ''password'') = None
        \<or> (twilio_configured rt \<and> provider_refused answer))
     \<and> ((\<exists>m. fst (handler rt req answer) = error_response m)
          \<or> fst (handler rt req answer) = success_response)
     \<and> (map_of kvs k = None \<longrightarrow> \<not> truthy (get_property (JObj kvs) k))
     \<and> (nullish v \<longrightarrow>
          handler rt req answer =
            (error_response (destructure_null_message rt),
             [LogError ''Error sending credentials:'' (destructure_null_message rt)]))
     \<and> (\<not> nullish v
          \<and> (\<not> truthy (get_property v ''phone'') \<or> \<not> truthy (get_property v ''username'')
               \<or> \<not> truthy (get_property v ''password'')) \<longrightarrow>
          handler rt req answer =
            (\<lparr>status = 400, headers = corsHeaders @ [(''Content-Type'', ''application/json'')],
              body = Json (JObj [(''success'', JBool False),
                                 (''error'', JStr missing_parameters_message)])\<rparr>,
             [LogError ''Error sending credentials:'' missing_parameters_message]))
     \<and> (truthy (get_property v ''phone'') \<and> truthy (get_property v ''username'')
          \<and> truthy (get_property v ''password'')
          \<and> to_string (get_property v ''phone'') = Some p \<and> \<not> plus91_and_ten_digits p \<longrightarrow>
          handler rt req answer =
            (\<lparr>status = 400, headers = corsHeaders @ [(''Content-Type'', ''application/json'')],
              body = Json (JObj [(''success'', JBool False),
                                 (''error'', JStr invalid_phone_message)])\<rparr>,
             [LogError ''Error sending credentials:'' invalid_phone_message]))
     \<and> (truthy (get_property v ''phone'') \<and> truthy (get_property v ''username'')
          \<and> truthy (get_property v ''password'')
          \<and> to_string (get_property v ''phone'') = None \<longrightarrow>
          handler rt req answer =
            (\<lparr>status = 400, headers = corsHeaders @ [(''Content-Type'', ''application/json'')],
              body = Json (JObj [(''success'', JBool False),
                                 (''error'', JStr (to_primitive_message rt))])\<rparr>,
             [LogError ''Error sending credentials:'' (to_primitive_message rt)]))
     \<and> (truthy (get_property v ''phone'') \<and> truthy (get_property v ''username'')
          \<and> truthy (get_property v ''password'')
          \<and> to_string (get_property v ''phone'') = Some p \<and> plus91_and_ten_digits p \<longrightarrow>
          validate rt (json_body req) =
            Inr (get_property v ''phone'', get_property v ''username'', get_property v ''password''))"
proof -
  note a = handler_status_iff [OF assms, of rt answer]
  note r = response_of_handler [OF assms(1), of rt answer]
  have b: "map_of kvs k = None \<longrightarrow> \<not> truthy (get_property (JObj kvs) k)"
    by simp
  have object: "\<not> nullish v" if "truthy (get_property v q)" for q
    using that by (auto simp add: nullish_def)
  note v = validate_cases [OF assms(2), of rt]
  have n: "nullish v \<longrightarrow>
          handler rt req answer =
            (error_response (destructure_null_message rt),
             [LogError ''Error sending credentials:'' (destructure_null_message rt)])"
    using assms(1) v by (simp add: handler_status_of_parts)
  have c: "\<not> nullish v
          \<and> (\<not> truthy (get_property v ''phone'') \<or> \<not> truthy (get_property v ''username'')
               \<or> \<not> truthy (get_property v ''password'')) \<longrightarrow>
          handler rt req answer =
            (\<lparr>status = 400, headers = corsHeaders @ [(''Content-Type'', ''application/json'')],
              body = Json (JObj [(''success'', JBool False),
                                 (''error'', JStr missing_parameters_message)])\<rparr>,
             [LogError ''Error sending credentials:'' missing_parameters_message])"
    using assms(1) v by (auto simp add: handler_status_of_parts error_response_def)
  have d: "truthy (get_property v ''phone'') \<and> truthy (get_property v ''username'')
          \<and> truthy (get_property v ''password'')
          \<and> to_string (get_property v ''phone'') = Some p \<and> \<not> plus91_and_ten_digits p \<longrightarrow>
          handler rt req answer =
            (\<lparr>status = 400, headers = corsHeaders @ [(''Content-Type'', ''application/json'')],
              body = Json (JObj [(''success'', JBool False),
                                 (''error'', JStr invalid_phone_message)])\<rparr>,
             [LogError ''Error sending credentials:'' invalid_phone_message])"
    using assms(1) v object [of "''phone''"]
    by (auto simp add: handler_status_of_parts error_response_def)
  have t: "truthy (get_property v ''phone'') \<and> truthy (get_property v ''username'')
          \<and> truthy (get_property v ''password'')
          \<and> to_string (get_property v ''phone'') = None \<longrightarrow>
          handler rt req answer =
            (\<lparr>status = 400, headers = corsHeaders @ [(''Content-Type'', ''application/json'')],
              body = Json (JObj [(''success'', JBool False),
                                 (''error'', JStr (to_primitive_message rt))])\<rparr>,
             [LogError ''Error sending credentials:'' (to_primitive_message rt)])"
    using assms(1) v object [of "''phone''"]
    by (auto simp add: handler_status_of_parts error_response_def)
  have e: "truthy (get_property v ''phone'') \<and> truthy (get_property v ''username'')
          \<and> truthy (get_property v ''password'')
          \<and> to_string (get_property v ''phone'') = Some p \<and> plus91_and_ten_digits p \<longrightarrow>
          validate rt (json_body req) =
            Inr (get_property v ''phone'', get_property v ''username'', get_property v ''password'')"
    using v object [of "''phone''"] by auto
  from a r b n c d t e show ?thesis by blast
qed

theorem C5_validation_of_the_body_witness:
  "status (fst (handler ex_runtime_bare (post ex_body_good) (FetchResponse True (Inr JNull)))) \<noteq> 400
   \<and> validate ex_runtime_bare (Inr ex_body_good)
       = Inr (JStr ''+911234567890'', JStr ''meera'', JStr ''s3cret'')
   \<and> fst (handler ex_runtime_bare (post ex_body_short_phone) (FetchResponse True (Inr JNull)))
       = error_response invalid_phone_message
   \<and> fst (handler ex_runtime_bare (post (JObj [(''phone'', JStr ''+911234567890'')]))
            (FetchResponse True (Inr JNull)))
       = error_response missing_parameters_message
   \<and> fst (handler ex_runtime_bare (post JNull) (FetchResponse True (Inr JNull)))
       = error_response ''Cannot destructure property of null''
   \<and> fst (handler ex_runtime_bare (post ex_body_object_phone) (FetchResponse True (Inr JNull)))
       = error_response ''Cannot convert object to primitive value''
   \<and> status (fst (handler ex_runtime_twilio (post ex_body_good)
                     (FetchResponse False (Inr (JObj [(''message'', JStr ''Invalid number'')])))))
       = 400
   \<and> status (fst (handler ex_runtime_twilio (post ex_body_good) (FetchRejected ''network'')))
       = 400
   \<and> status (fst (handler ex_runtime_twilio (post ex_body_good) (FetchResponse True (Inr JNull))))
       \<noteq> 400"
proof -
  let ?answer = "FetchResponse True (Inr JNull)"
  let ?refused = "FetchResponse False (Inr (JObj [(''message'', JStr ''Invalid number'')]))"
  let ?only_phone = "JObj [(''phone'', JStr ''+911234567890'')]"
  let ?kvs = "[(''phone'', JStr ''+911234567890'')]"
  have not_preflight: "req_method (post b) \<noteq> ''OPTIONS''" and parsed: "json_body (post b) = Inr b"
    for b
    by (simp_all add: post_def)
  have good: "\<not> nullish ex_body_good"
    "get_property ex_body_good ''phone'' = JStr ''+911234567890''"
    "get_property ex_body_good ''username'' = JStr ''meera''"
    "get_property ex_body_good ''password'' = JStr ''s3cret''"
    by (simp_all add: nullish_def ex_body_good_def)
  have short: "\<not> nullish ex_body_short_phone"
    "get_property ex_body_short_phone ''phone'' = JStr ''+91123456789''"
    "get_property ex_body_short_phone ''username'' = JStr ''meera''"
    "get_property ex_body_short_phone ''password'' = JStr ''s3cret''"
    by (simp_all add: nullish_def ex_body_short_phone_def)
  have objp: "\<not> nullish ex_body_object_phone"
    "get_property ex_body_object_phone ''phone'' = JObj [(''toString'', JNum True ''1'')]"
    "get_property ex_body_object_phone ''username'' = JStr ''meera''"
    "get_property ex_body_object_phone ''password'' = JStr ''s3cret''"
    by (simp_all add: nullish_def ex_body_object_phone_def)
  have only: "\<not> nullish ?only_phone" "get_property ?only_phone ''username'' = JUndefined"
    by (simp_all add: nullish_def)
  have pattern: "plus91_and_ten_digits ''+911234567890''" "\<not> plus91_and_ten_digits ''+91123456789''"
    by (simp_all add: plus91_and_ten_digits_def digit_eval)
  have bare: "\<not> twilio_configured ex_runtime_bare" and twilio: "twilio_configured ex_runtime_twilio"
    by (simp_all add: twilio_configured_def env_set_def ex_runtime_bare_def ex_runtime_twilio_def)
  have refused: "provider_refused ?refused" "provider_refused (FetchRejected ''network'')"
    "\<not> provider_refused ?answer"
    by (simp_all add: provider_refused_def)
  note at_good = C5_validation_of_the_body
      [OF not_preflight [of ex_body_good] parsed [of ex_body_good],
         where rt = ex_runtime_bare and answer = ?answer and kvs = ?kvs and k = "''username''"
         and p = "''+911234567890''"]
  note at_short = C5_validation_of_the_body
      [OF not_preflight [of ex_body_short_phone] parsed [of ex_body_short_phone],
         where rt = ex_runtime_bare and answer = ?answer and kvs = ?kvs and k = "''username''"
         and p = "''+91123456789''"]
  note at_only = C5_validation_of_the_body
      [OF not_preflight [of ?only_phone] parsed [of ?only_phone],
         where rt = ex_runtime_bare and answer = ?answer and kvs = ?kvs and k = "''username''"
         and p = "''+911234567890''"]
  note at_null = C5_validation_of_the_body
      [OF not_preflight [of JNull] parsed [of JNull],
         where rt = ex_runtime_bare and answer = ?answer and kvs = ?kvs and k = "''username''"
         and p = "''+911234567890''"]
  note at_objp = C5_validation_of_the_body
      [OF not_preflight [of ex_body_object_phone] parsed [of ex_body_object_phone],
         where rt = ex_runtime_bare and answer = ?answer and kvs = ?kvs and k = "''username''"
         and p = "''+911234567890''"]
  note at_refused = C5_validation_of_the_body
      [OF not_preflight [of ex_body_good] parsed [of ex_body_good],
         where rt = ex_runtime_twilio and answer = ?refused and kvs = ?kvs and k = "''username''"
         and p = "''+911234567890''"]
  note at_network = C5_validation_of_the_body
      [OF not_preflight [of ex_body_good] parsed [of ex_body_good],
         where rt = ex_runtime_twilio and answer = "FetchRejected ''network''" and kvs = ?kvs
         and k = "''username''" and p = "''+911234567890''"]
  note at_sent = C5_validation_of_the_body
      [OF not_preflight [of ex_body_good] parsed [of ex_body_good],
         where rt = ex_runtime_twilio and answer = ?answer and kvs = ?kvs and k = "''username''"
         and p = "''+911234567890''"]
  have first: "status (fst (handler ex_runtime_bare (post ex_body_good) ?answer)) \<noteq> 400"
    using at_good good pattern bare by simp
  have valid: "validate ex_runtime_bare (Inr ex_body_good)
       = Inr (JStr ''+911234567890'', JStr ''meera'', JStr ''s3cret'')"
    using at_good good pattern by (simp add: parsed)
  have third: "fst (handler ex_runtime_bare (post ex_body_short_phone) ?answer)
       = error_response invalid_phone_message"
    using at_short short pattern by (simp add: error_response_def)
  have fourth: "fst (handler ex_runtime_bare (post ?only_phone) ?answer)
       = error_response missing_parameters_message"
    using at_only only by (simp add: error_response_def)
  have fifth: "fst (handler ex_runtime_bare (post JNull) ?answer)
       = error_response ''Cannot destructure property of null''"
    using at_null by (simp add: nullish_def ex_runtime_bare_def)
  have sixth: "fst (handler ex_runtime_bare (post ex_body_object_phone) ?answer)
       = error_response ''Cannot convert object to primitive value''"
    using at_objp objp by (simp add: error_response_def ex_runtime_bare_def)
  have seventh: "status (fst (handler ex_runtime_twilio (post ex_body_good) ?refused)) = 400"
    using at_refused twilio refused by simp
  have eighth: "status (fst (handler ex_runtime_twilio (post ex_body_good)
                   (FetchRejected ''network''))) = 400"
    using at_network twilio refused by simp
  have ninth: "status (fst (handler ex_runtime_twilio (post ex_body_good) ?answer)) \<noteq> 400"
    using at_sent good pattern refused by simp
  from first valid third fourth fifth sixth seventh eighth ninth show ?thesis by blast
qed

lemma validated_phone:
  assumes "validate rt parsed = Inr (phone, username, password)"
  shows "\<exists>p. to_string phone = Some p \<and> plus91_and_ten_digits p"
  using assms
  by (auto simp add: validate_def Let_def phone_regex_test_iff
        split: sum.splits if_splits option.splits)

lemma log_sms_no_dispatch: "filter is_dispatch (snd (log_sms rt phone username password)) = []"
  by (simp add: log_sms_def Let_def is_dispatch_def split: option.splits)

text \<open>
  Without credentials, a request that passes the validation is not always answered 200:
  when the username is an object with an own property \<open>toString\<close>, the fourth log line
  throws, neither the username nor the password is logged, and the answer is the 400
  error response.
\<close>

theorem C6_fallback_counterexample:
  "validate ex_runtime_bare (json_body (post ex_body_object_username))
       = Inr (JStr ''+911234567890'', JObj [(''toString'', JNum True ''1'')], JStr ''s3cret'')
   \<and> \<not> twilio_configured ex_runtime_bare
   \<and> handler ex_runtime_bare (post ex_body_object_username) (FetchResponse True (Inr JNull))
       = (\<lparr>status = 400, headers = corsHeaders @ [(''Content-Type'', ''application/json'')],
           body = Json (JObj [(''success'', JBool False),
                              (''error'', JStr ''Cannot convert object to primitive value'')])\<rparr>,
          [Log ''--- Twilio credentials not found. Logging SMS content instead. ---'',
           Log ''--- SMS to +911234567890 ---'',
           Log ''Welcome to Nagar Rakshak!'',
           LogError ''Error sending credentials:'' ''Cannot convert object to primitive value''])"
  by (simp add: ex_body_object_username_def phone_regex_test_def digit_eval eval_nat_numeral
        validate_def nullish_def handler_def post_def error_response_def deliver_def
        log_sms_def twilio_configured_def env_set_def ex_runtime_bare_def Let_def)

text \<open>
  C6. When the request passes the validation and the provider's credentials are not all
  set, the handler dispatches no SMS. It answers 200 with success true exactly when the
  username and the password can be converted to strings, and then logs the six lines with
  the phone, the username and the password as converted; for three strings these are the
  strings themselves. When the username or the password is an object with an own property
  \<open>toString\<close>, the handler answers with the 400 error response after the lines logged
  before the conversion that throws.
\<close>

theorem C6_fallback_without_credentials:
  assumes "req_method req \<noteq> ''OPTIONS''"
    and "validate rt (json_body req) = Inr (phone, username, password)"
    and "\<not> twilio_configured rt"
  shows
    "filter is_dispatch (snd (handler rt req answer)) = []
     \<and> (\<exists>p. to_string phone = Some p \<and> plus91_and_ten_digits p)
     \<and> (status (fst (handler rt req answer)) = 200
          \<longleftrightarrow> to_string username \<noteq> None \<and> to_string password \<noteq> None)
     \<and> (to_string phone = Some p \<and> to_string username = Some u \<and> to_string password = Some w
          \<longrightarrow> handler rt req answer =
            (\<lparr>status = 200, headers = corsHeaders @ [(''Content-Type'', ''application/json'')],
              body = Json (JObj [(''success'', JBool True),
                                 (''message'', JStr ''Credentials sent successfully.'')])\<rparr>,
             [Log ''--- Twilio credentials not found. Logging SMS content instead. ---'',
              Log (''--- SMS to '' @ p @ '' ---''),
              Log ''Welcome to Nagar Rakshak!'',
              Log (''Your username: '' @ u),
              Log (''Your password: '' @ w),
              Log ''--- End of SMS ---'']))
     \<and> (phone = JStr p \<and> username = JStr u \<and> password = JStr w
          \<longrightarrow> handler rt req answer =
            (\<lparr>status = 200, headers = corsHeaders @ [(''Content-Type'', ''application/json'')],
              body = Json (JObj [(''success'', JBool True),
                                 (''message'', JStr ''Credentials sent successfully.'')])\<rparr>,
             [Log ''--- Twilio credentials not found. Logging SMS content instead. ---'',
              Log (''--- SMS to '' @ p @ '' ---''),
              Log ''Welcome to Nagar Rakshak!'',
              Log (''Your username: '' @ u),
              Log (''Your password: '' @ w),
              Log ''--- End of SMS ---'']))
     \<and> (to_string phone = Some p \<and> username = JObj kvs \<and> map_of kvs ''toString'' \<noteq> None
          \<longrightarrow> handler rt req answer =
            (error_response (to_primitive_message rt),
             [Log ''--- Twilio credentials not found. Logging SMS content instead. ---'',
              Log (''--- SMS to '' @ p @ '' ---''),
              Log ''Welcome to Nagar Rakshak!'',
              LogError ''Error sending credentials:'' (to_primitive_message rt)]))
     \<and> (to_string phone = Some p \<and> to_string username = Some u
          \<and> password = JObj kvs \<and> map_of kvs ''toString'' \<noteq> None
          \<longrightarrow> handler rt req answer =
            (error_response (to_primitive_message rt),
             [Log ''--- Twilio credentials not found. Logging SMS content instead. ---'',
              Log (''--- SMS to '' @ p @ '' ---''),
              Log ''Welcome to Nagar Rakshak!'',
              Log (''Your username: '' @ u),
              LogError ''Error sending credentials:'' (to_primitive_message rt)]))
     \<and> (username = JObj kvs \<and> map_of kvs ''toString'' = None
          \<longrightarrow> to_string username = Some ''[object Object]'')"
proof -
  have h: "handler rt req answer =
     (case fst (log_sms rt phone username password) of
        Some m \<Rightarrow> (error_response m,
                   snd (log_sms rt phone username password)
                     @ [LogError ''Error sending credentials:'' m])
      | None \<Rightarrow> (success_response, snd (log_sms rt phone username password)))"
  proof -
    have "deliver rt answer phone username password = log_sms rt phone username password"
      using assms(3) by (simp add: deliver_def)
    then show ?thesis
      using assms(1,2) by (simp add: handler_status_of_parts split: option.splits)
  qed
  have a: "filter is_dispatch (snd (handler rt req answer)) = []"
    using log_sms_no_dispatch [of rt phone username password]
    by (simp add: h is_dispatch_def split: option.splits)
  note b = validated_phone [OF assms(2)]
  have c: "status (fst (handler rt req answer)) = 200
          \<longleftrightarrow> to_string username \<noteq> None \<and> to_string password \<noteq> None"
    using b log_sms_throws_iff [of rt phone username password]
    by (auto simp add: h status_responses split: option.splits)
  have d: "to_string phone = Some p \<and> to_string username = Some u \<and> to_string password = Some w
          \<longrightarrow> handler rt req answer =
            (\<lparr>status = 200, headers = corsHeaders @ [(''Content-Type'', ''application/json'')],
              body = Json (JObj [(''success'', JBool True),
                                 (''message'', JStr ''Credentials sent successfully.'')])\<rparr>,
             [Log ''--- Twilio credentials not found. Logging SMS content instead. ---'',
              Log (''--- SMS to '' @ p @ '' ---''),
              Log ''Welcome to Nagar Rakshak!'',
              Log (''Your username: '' @ u),
              Log (''Your password: '' @ w),
              Log ''--- End of SMS ---''])"
    by (simp add: h log_sms_def Let_def success_response_def)
  have e: "phone = JStr p \<and> username = JStr u \<and> password = JStr w
          \<longrightarrow> handler rt req answer =
            (\<lparr>status = 200, headers = corsHeaders @ [(''Content-Type'', ''application/json'')],
              body = Json (JObj [(''success'', JBool True),
                                 (''message'', JStr ''Credentials sent successfully.'')])\<rparr>,
             [Log ''--- Twilio credentials not found. Logging SMS content instead. ---'',
              Log (''--- SMS to '' @ p @ '' ---''),
              Log ''Welcome to Nagar Rakshak!'',
              Log (''Your username: '' @ u),
              Log (''Your password: '' @ w),
              Log ''--- End of SMS ---''])"
    by (simp add: h log_sms_def Let_def success_response_def)
  have f: "to_string phone = Some p \<and> username = JObj kvs \<and> map_of kvs ''toString'' \<noteq> None
          \<longrightarrow> handler rt req answer =
            (error_response (to_primitive_message rt),
             [Log ''--- Twilio credentials not found. Logging SMS content instead. ---'',
              Log (''--- SMS to '' @ p @ '' ---''),
              Log ''Welcome to Nagar Rakshak!'',
              LogError ''Error sending credentials:'' (to_primitive_message rt)])"
    by (auto simp add: h log_sms_def Let_def)
  have g: "to_string phone = Some p \<and> to_string username = Some u
          \<and> password = JObj kvs \<and> map_of kvs ''toString'' \<noteq> None
          \<longrightarrow> handler rt req answer =
            (error_response (to_primitive_message rt),
             [Log ''--- Twilio credentials not found. Logging SMS content instead. ---'',
              Log (''--- SMS to '' @ p @ '' ---''),
              Log ''Welcome to Nagar Rakshak!'',
              Log (''Your username: '' @ u),
              LogError ''Error sending credentials:'' (to_primitive_message rt)])"
    by (auto simp add: h log_sms_def Let_def)
  have i: "username = JObj kvs \<and> map_of kvs ''toString'' = None
          \<longrightarrow> to_string username = Some ''[object Object]''"
    by simp
  from a b c d e f g i show ?thesis by blast
qed

theorem C6_fallback_without_credentials_witness:
  "handler (ex_runtime_bare\<lparr>TWILIO_ACCOUNT_SID := Some ''AC123''\<rparr>) (post ex_body_good)
      (FetchRejected ''unused'') =
     (success_response,
      [Log ''--- Twilio credentials not found. Logging SMS content instead. ---'',
       Log ''--- SMS to +911234567890 ---'',
       Log ''Welcome to Nagar Rakshak!'',
       Log ''Your username: meera'',
       Log ''Your password: s3cret'',
       Log ''--- End of SMS ---''])
   \<and> handler ex_runtime_bare (post ex_body_object_username) (FetchRejected ''unused'') =
     (error_response ''Cannot convert object to primitive value'',
      [Log ''--- Twilio credentials not found. Logging SMS content instead. ---'',
       Log ''--- SMS to +911234567890 ---'',
       Log ''Welcome to Nagar Rakshak!'',
       LogError ''Error sending credentials:'' ''Cannot convert object to primitive value''])"
proof -
  let ?rt = "ex_runtime_bare\<lparr>TWILIO_ACCOUNT_SID := Some ''AC123''\<rparr>"
  have not_preflight: "req_method (post b) \<noteq> ''OPTIONS''" for b
    by (simp add: post_def)
  have pattern: "phone_regex_test ''+911234567890''"
    by (simp add: phone_regex_test_def digit_eval eval_nat_numeral)
  have valid_good: "validate ?rt (json_body (post ex_body_good))
       = Inr (JStr ''+911234567890'', JStr ''meera'', JStr ''s3cret'')"
    using pattern by (simp add: post_def ex_body_good_def validate_def nullish_def)
  have valid_object: "validate ex_runtime_bare (json_body (post ex_body_object_username))
       = Inr (JStr ''+911234567890'', JObj [(''toString'', JNum True ''1'')], JStr ''s3cret'')"
    using pattern by (simp add: post_def ex_body_object_username_def validate_def nullish_def)
  have bare: "\<not> twilio_configured ?rt" "\<not> twilio_configured ex_runtime_bare"
    by (simp_all add: twilio_configured_def env_set_def ex_runtime_bare_def)
  note at_good = C6_fallback_without_credentials
      [OF not_preflight valid_good bare(1), where answer = "FetchRejected ''unused''"
         and p = "''+911234567890''" and u = "''meera''" and w = "''s3cret''"
         and kvs = "[(''toString'', JNum True ''1'')]"]
  note at_object = C6_fallback_without_credentials
      [OF not_preflight valid_object bare(2), where answer = "FetchRejected ''unused''"
         and p = "''+911234567890''" and u = "''meera''" and w = "''s3cret''"
         and kvs = "[(''toString'', JNum True ''1'')]"]
  have first: "handler ?rt (post ex_body_good) (FetchRejected ''unused'') =
     (success_response,
      [Log ''--- Twilio credentials not found. Logging SMS content instead. ---'',
       Log ''--- SMS to +911234567890 ---'',
       Log ''Welcome to Nagar Rakshak!'',
       Log ''Your username: meera'',
       Log ''Your password: s3cret'',
       Log ''--- End of SMS ---''])"
    using at_good by (simp add: success_response_def)
  have second: "handler ex_runtime_bare (post ex_body_object_username) (FetchRejected ''unused'') =
     (error_response ''Cannot convert object to primitive value'',
      [Log ''--- Twilio credentials not found. Logging SMS content instead. ---'',
       Log ''--- SMS to +911234567890 ---'',
       Log ''Welcome to Nagar Rakshak!'',
       LogError ''Error sending credentials:'' ''Cannot convert object to primitive value''])"
    using at_object by (simp add: ex_runtime_bare_def)
  from first second show ?thesis by blast
qed

end
